theory Spec2Isabelle
  imports Complex_Main
begin

section \<open>Errors\<close>

text \<open>
  Every \<^verbatim>\<open>raise\<close> of \<^verbatim>\<open>seq2seq.py\<close> is a value: the Python exception class with the
  text of its message (the numbers formatted into a message with \<^verbatim>\<open>%d\<close> are left out,
  a tensor name formatted with \<^verbatim>\<open>%s\<close> is appended).
\<close>

datatype error =
    ValueError string
  | TypeError string
  | IndexError string
  | NotImplementedError string
  | UnboundLocalError string


section \<open>Tensors\<close>

text \<open>
  A float tensor of rank 1 is a list of reals, one of rank 2 (\<^verbatim>\<open>[batch_size x size]\<close>) a
  list of rows, one row per batch element. The reals stand for the 32-bit floats of
  the program: rounding is not modelled. The operations below are those of the
  TensorFlow library that \<^verbatim>\<open>seq2seq.py\<close> calls (\<^verbatim>\<open>math_ops\<close>, \<^verbatim>\<open>nn_ops\<close>,
  \<^verbatim>\<open>embedding_ops\<close>), with the meaning the library documents. The operations of the
  decoders are taken on tensors whose shapes fit together; the operations of the
  losses test the shapes, as the library does when the graph is built.
\<close>

type_synonym vec = "real list"
type_synonym mat = "real list list"

fun argmax_from :: "nat \<Rightarrow> real \<Rightarrow> nat \<Rightarrow> vec \<Rightarrow> nat" where
  "argmax_from best v i [] = best"
| "argmax_from best v i (x # xs) =
     (if v < x then argmax_from i x (Suc i) xs else argmax_from best v (Suc i) xs)"

definition argmax :: "mat \<Rightarrow> nat list" where
  \<comment> \<open>\<^verbatim>\<open>math_ops.argmax(t, 1)\<close>: per row, the index of the first largest entry.\<close>
  "argmax t = map (\<lambda>row. case row of [] \<Rightarrow> 0 | x # xs \<Rightarrow> argmax_from 0 x 1 xs) t"

definition embedding_lookup :: "mat \<Rightarrow> nat list \<Rightarrow> mat" where
  \<comment> \<open>\<^verbatim>\<open>embedding_ops.embedding_lookup\<close>: the rows of the embedding at the given ids
      (ids below the number of rows, as the shapes of the callers guarantee).\<close>
  "embedding_lookup embedding ids = map (\<lambda>s. embedding ! s) ids"

definition ncols :: "mat \<Rightarrow> nat" where
  "ncols w = (case w of [] \<Rightarrow> 0 | r # _ \<Rightarrow> length r)"

definition matmul :: "mat \<Rightarrow> mat \<Rightarrow> mat" where
  "matmul x w =
     map (\<lambda>row. map (\<lambda>j. \<Sum>k\<leftarrow>[0..<length row]. row ! k * (w ! k ! j)) [0..<ncols w]) x"

definition bias_add :: "mat \<Rightarrow> vec \<Rightarrow> mat" where
  "bias_add x b = map (\<lambda>row. map2 (+) row b) x"

definition xw_plus_b :: "mat \<Rightarrow> mat \<Rightarrow> vec \<Rightarrow> mat" where
  "xw_plus_b x w b = bias_add (matmul x w) b"

definition reduce_sum :: "vec \<Rightarrow> real" where
  "reduce_sum v = sum_list v"

section \<open>The decoder loop: \<^verbatim>\<open>rnn_decoder\<close>\<close>

definition extract_argmax_and_embed ::
  "mat \<Rightarrow> (mat \<times> vec) option \<Rightarrow> bool \<Rightarrow> (mat \<Rightarrow> nat \<Rightarrow> mat)" where
  \<comment> \<open>\<^verbatim>\<open>_extract_argmax_and_embed\<close>; \<^verbatim>\<open>stop_gradient\<close> is the identity on values.\<close>
  "extract_argmax_and_embed embedding output_projection update_embedding =
     (\<lambda>prev _.
        let prev' = (case output_projection of
                       None \<Rightarrow> prev
                     | Some (w, b) \<Rightarrow> xw_plus_b prev w b);
            prev_symbol = argmax prev'
        in embedding_lookup embedding prev_symbol)"

definition inner_loop ::
  "('o \<Rightarrow> nat \<Rightarrow> 'i) option \<Rightarrow> 'o option \<Rightarrow> 'i \<Rightarrow> nat \<Rightarrow> bool \<Rightarrow> error + 'i" where
  \<comment> \<open>Calling a \<^verbatim>\<open>loop_function\<close> that is \<^verbatim>\<open>None\<close> is Python's TypeError.\<close>
  "inner_loop loop_function prev inp i feed_prev =
     (if feed_prev \<and> prev \<noteq> None
      then (case loop_function of
              None \<Rightarrow> Inl (TypeError ''NoneType object is not callable'')
            | Some f \<Rightarrow> Inr (f (the prev) i))
      else Inr inp)"

definition cond :: "bool \<Rightarrow> error + 'a \<Rightarrow> error + 'a \<Rightarrow> error + 'a" where
  \<comment> \<open>\<^verbatim>\<open>control_flow_ops.cond(pred, fn1, fn2)\<close>: both branches are called when the graph
      is built (\<^verbatim>\<open>fn1\<close> first), the predicate selects the value.\<close>
  "cond pred fn1 fn2 =
     (case fn1 of
        Inl e \<Rightarrow> Inl e
      | Inr t \<Rightarrow> (case fn2 of
                    Inl e \<Rightarrow> Inl e
                  | Inr f \<Rightarrow> Inr (if pred then t else f)))"

definition decoder_input ::
  "('o \<Rightarrow> nat \<Rightarrow> 'i) option \<Rightarrow> real option \<Rightarrow> real \<Rightarrow> 'o option \<Rightarrow> 'i \<Rightarrow> nat
     \<Rightarrow> error + 'i" where
  \<comment> \<open>The input selection of one step of \<^verbatim>\<open>rnn_decoder\<close> (the lines from
      \<^verbatim>\<open>if feed_prev_p is not None\<close> to the call of the cell); \<open>rv\<close> is the value of
      \<^verbatim>\<open>tf.random_uniform([], minval=0, maxval=1)\<close> drawn at this step. Without a
      \<^verbatim>\<open>loop_function\<close> the Python \<^verbatim>\<open>and\<close> yields \<^verbatim>\<open>False\<close>, no tensor, and \<^verbatim>\<open>cond\<close>
      refuses a Python \<^verbatim>\<open>bool\<close> as predicate with TypeError.\<close>
  "decoder_input loop_function feed_prev_p rv prev inp i =
     (case feed_prev_p of
        Some p \<Rightarrow>
          (if loop_function = None
           then Inl (TypeError ''pred must not be a Python bool'')
           else (let feed_prev = (rv < p)
                 in cond feed_prev
                      (inner_loop loop_function prev inp i False)
                      (inner_loop loop_function prev inp i True)))
      | None \<Rightarrow>
          (let feed_prev = (loop_function \<noteq> None)
           in inner_loop loop_function prev inp i feed_prev))"

fun rnn_decoder_loop ::
  "('i \<Rightarrow> 's \<Rightarrow> 'o \<times> 's) \<Rightarrow> ('o \<Rightarrow> nat \<Rightarrow> 'i) option \<Rightarrow> real option \<Rightarrow> (nat \<Rightarrow> real)
     \<Rightarrow> nat \<Rightarrow> 'i list \<Rightarrow> 's \<Rightarrow> 'o list \<Rightarrow> 'o option \<Rightarrow> error + ('o list \<times> 's)" where
  "rnn_decoder_loop cell loop_function feed_prev_p rv i [] state outputs prev =
     Inr (outputs, state)"
| "rnn_decoder_loop cell loop_function feed_prev_p rv i (inp # rest) state outputs prev =
     (case decoder_input loop_function feed_prev_p (rv i) prev inp i of
        Inl e \<Rightarrow> Inl e
      | Inr inp' \<Rightarrow>
          (case cell inp' state of
             (output, state') \<Rightarrow>
               rnn_decoder_loop cell loop_function feed_prev_p rv (Suc i) rest state'
                 (outputs @ [output]) (Some output)))"

definition rnn_decoder ::
  "'i list \<Rightarrow> 's \<Rightarrow> ('i \<Rightarrow> 's \<Rightarrow> 'o \<times> 's) \<Rightarrow> ('o \<Rightarrow> nat \<Rightarrow> 'i) option \<Rightarrow> real option
     \<Rightarrow> (nat \<Rightarrow> real) \<Rightarrow> error + ('o list \<times> 's)" where
  \<comment> \<open>\<open>rv i\<close> is the uniform random value drawn at step \<open>i\<close>.\<close>
  "rnn_decoder decoder_inputs initial_state cell loop_function feed_prev_p rv =
     rnn_decoder_loop cell loop_function feed_prev_p rv 0 decoder_inputs initial_state [] None"

definition embedding_rnn_decoder ::
  "nat list list \<Rightarrow> 's \<Rightarrow> (mat \<Rightarrow> 's \<Rightarrow> mat \<times> 's) \<Rightarrow> mat \<Rightarrow> (mat \<times> vec) option \<Rightarrow> bool
     \<Rightarrow> bool \<Rightarrow> real option \<Rightarrow> (nat \<Rightarrow> real) \<Rightarrow> error + (mat list \<times> 's)" where
  \<comment> \<open>\<open>embedding\<close> is the value of the variable \<^verbatim>\<open>embedding\<close> of shape
      \<^verbatim>\<open>[num_symbols, embedding_size]\<close>.\<close>
  "embedding_rnn_decoder decoder_inputs initial_state cell embedding output_projection
       feed_previous update_embedding_for_previous feed_prev_p rv =
     (let schedule = (feed_prev_p \<noteq> None);
          loop_function =
            (if feed_previous \<or> schedule
             then Some (extract_argmax_and_embed embedding output_projection
                          update_embedding_for_previous)
             else None);
          emb_inp = map (\<lambda>i. embedding_lookup embedding i) decoder_inputs
      in rnn_decoder emb_inp initial_state cell loop_function feed_prev_p rv)"

section \<open>Attention: \<^verbatim>\<open>attention_decoder\<close>\<close>

text \<open>
  A tensor of rank 3, \<^verbatim>\<open>[batch_size x attn_length x attn_size]\<close>, is a list (over the
  batch) of lists (over the source positions) of vectors. The state of a cell is one
  tensor or a tuple of tensors (\<^verbatim>\<open>nest.is_sequence\<close>).
\<close>

type_synonym tensor3 = "real list list list"

datatype cell_state = Tensor mat | Tuple "mat list"

definition concat1 :: "mat list \<Rightarrow> mat" where
  \<comment> \<open>\<^verbatim>\<open>array_ops.concat(1, values)\<close>: the rows of the values side by side.\<close>
  "concat1 ts1 =
     (case ts1 of
        [] \<Rightarrow> []
      | t # _ \<Rightarrow> map (\<lambda>b. concat (map (\<lambda>u. u ! b) ts1)) [0..<length t])"

definition mul2 :: "mat \<Rightarrow> mat \<Rightarrow> mat" where
  \<comment> \<open>The entrywise product \<^verbatim>\<open>*\<close> of two tensors of one shape.\<close>
  "mul2 x y = map2 (map2 (*)) x y"

definition softmax_row :: "vec \<Rightarrow> vec" where
  "softmax_row s = map (\<lambda>x. exp x / (\<Sum>y\<leftarrow>s. exp y)) s"

definition softmax :: "mat \<Rightarrow> mat" where
  \<comment> \<open>\<^verbatim>\<open>nn_ops.softmax\<close>, along the last axis.\<close>
  "softmax s = map softmax_row s"

record linear_vars =
  Matrix :: mat
  Bias :: vec

definition linear :: "mat list \<Rightarrow> linear_vars \<Rightarrow> bool \<Rightarrow> mat" where
  \<comment> \<open>\<^verbatim>\<open>rnn_cell._linear(args, output_size, bias)\<close>: the arguments side by side, times
      the variable \<^verbatim>\<open>Matrix\<close> of the scope, plus its variable \<^verbatim>\<open>Bias\<close> when \<open>bias\<close>
      is set; the output size is the width of \<^verbatim>\<open>Matrix\<close>.\<close>
  "linear args vars bias =
     (let res = matmul (concat1 args) (Matrix vars)
      in if bias then bias_add res (Bias vars) else res)"

text \<open>The variables that \<^verbatim>\<open>attention_decoder\<close> creates, by scope and name.\<close>

record variables =
  AttnW :: "nat \<Rightarrow> mat"
  AttnV :: "nat \<Rightarrow> vec"
  Attention :: "nat \<Rightarrow> linear_vars"
  Linear :: linear_vars
  AttnOutputProjection :: linear_vars
  AttnMergeProjection :: linear_vars
  maxout_b :: vec
  MaxoutOutputProjection_0 :: linear_vars
  MaxoutOutputProjection_1 :: linear_vars
  DecInit :: mat

definition hidden_features :: "tensor3 \<Rightarrow> mat \<Rightarrow> tensor3" where
  \<comment> \<open>\<^verbatim>\<open>nn_ops.conv2d(hidden, k, [1, 1, 1, 1], "SAME")\<close> with a 1-by-1 filter: every
      position's vector times \<open>k\<close>.\<close>
  "hidden_features hidden k = map (\<lambda>positions. matmul positions k) hidden"

definition attention_scores :: "vec \<Rightarrow> tensor3 \<Rightarrow> mat \<Rightarrow> mat" where
  \<comment> \<open>\<^verbatim>\<open>reduce_sum(v[i] * tanh(hidden_features[i] + y), [2, 3])\<close>.\<close>
  "attention_scores v hf y =
     map2 (\<lambda>positions yb.
             map (\<lambda>h. reduce_sum (map2 (*) v (map tanh (map2 (+) h yb)))) positions)
       hf y"

definition attention_weights :: "variables \<Rightarrow> tensor3 \<Rightarrow> mat option \<Rightarrow> mat \<Rightarrow> nat \<Rightarrow> mat" where
  \<comment> \<open>The attention mask \<^verbatim>\<open>a\<close> of head \<open>i\<close> in \<^verbatim>\<open>attention\<close>.\<close>
  "attention_weights vars hidden src_mask query i =
     (let y = linear [query] (Attention vars i) True;
          s = attention_scores (AttnV vars i) (hidden_features hidden (AttnW vars i)) y;
          s' = (case src_mask of None \<Rightarrow> s | Some m \<Rightarrow> mul2 s m)
      in softmax s')"

definition weighted_sum :: "mat \<Rightarrow> tensor3 \<Rightarrow> nat \<Rightarrow> mat" where
  \<comment> \<open>\<^verbatim>\<open>reduce_sum(reshape(a, [-1, attn_length, 1, 1]) * hidden, [1, 2])\<close>, reshaped
      to \<^verbatim>\<open>[-1, attn_size]\<close>.\<close>
  "weighted_sum a hidden attn_size =
     map2 (\<lambda>ab positions.
             map (\<lambda>j. \<Sum>t\<leftarrow>[0..<length positions]. ab ! t * (positions ! t ! j))
               [0..<attn_size])
       a hidden"

definition attention ::
  "variables \<Rightarrow> tensor3 \<Rightarrow> nat \<Rightarrow> int \<Rightarrow> mat option \<Rightarrow> cell_state \<Rightarrow> mat list" where
  "attention vars hidden attn_size num_heads src_mask query =
     (let query' = (case query of Tuple query_list \<Rightarrow> concat1 query_list | Tensor t \<Rightarrow> t)
      in map (\<lambda>i. weighted_sum (attention_weights vars hidden src_mask query' i) hidden
                     attn_size)
           [0..<nat num_heads])"

text \<open>
  A decoder input as the graph knows it: its name, the second dimension of its static
  shape (\<^verbatim>\<open>inp.get_shape().with_rank(2)[1].value\<close>, \<^verbatim>\<open>None\<close> when unknown) and its value.
  The docstring types every input and every result of \<^verbatim>\<open>loop_function\<close> as a 2D
  tensor.
\<close>

record input =
  inp_name :: string
  inp_size :: "nat option"
  inp_value :: mat

text \<open>
  What the \<^verbatim>\<open>isinstance\<close> tests of \<^verbatim>\<open>init_state\<close> find: a \<^verbatim>\<open>BOWCell\<close> around an LSTM
  cell (with or without dropout), a \<^verbatim>\<open>BOWCell\<close> around a \<^verbatim>\<open>MultiRNNCell\<close> of
  \<^verbatim>\<open>num_layers\<close> cells whose first is such an LSTM cell, or any other cell.
\<close>

datatype cell_kind = BOW_LSTM | BOW_MultiRNN nat | Other_cell

text \<open>The errors that \<^verbatim>\<open>attention_decoder\<close> raises.\<close>

definition error_no_inputs :: error where
  "error_no_inputs = ValueError ''Must provide at least 1 input to attention decoder.''"

definition error_num_heads :: error where
  "error_num_heads = ValueError ''With less than 1 heads, use a non-attention decoder.''"

definition error_attn_shape :: error where
  "error_attn_shape = ValueError ''Shape[2] of attention_states must be known: ''"

definition error_attn_length :: error where
  \<comment> \<open>An \<^verbatim>\<open>attn_length\<close> that is a tensor, formatted with \<^verbatim>\<open>%d\<close> for the log.\<close>
  "error_attn_length = TypeError ''%d format: a number is required, not Tensor''"

definition error_input_size :: "string \<Rightarrow> error" where
  "error_input_size name = ValueError (''Could not infer input size from input: '' @ name)"

definition error_state_init :: error where
  "error_state_init =
     NotImplementedError ''Need to implement decoder state initialization for non-LSTM cells''"

definition init_state ::
  "cell_kind \<Rightarrow> tensor3 \<Rightarrow> nat \<Rightarrow> nat \<Rightarrow> nat \<Rightarrow> mat option \<Rightarrow> error + cell_state" where
  \<comment> \<open>The body of the loop over the heads returns or raises in its first round, and
      \<^verbatim>\<open>num_heads\<close> is at least 1 when \<^verbatim>\<open>init_state\<close> is called.\<close>
  "init_state kind hidden batch_size attn_length attn_size src_mask =
     (let s = replicate batch_size (replicate attn_length 1);
          s' = (case src_mask of None \<Rightarrow> s | Some m \<Rightarrow> mul2 s m);
          a = softmax s';
          C = weighted_sum a hidden attn_size;
          h = map (map tanh) C;
          unit = concat1 [C, h]
      in case kind of
           BOW_LSTM \<Rightarrow> Inr (Tensor unit)
         | BOW_MultiRNN num_layers \<Rightarrow>
             Inr (Tensor (concat1 (replicate (max 1 num_layers) unit)))
         | Other_cell \<Rightarrow> Inl error_state_init)"

definition attention_decoder_checks :: "input list \<Rightarrow> int \<Rightarrow> nat option \<Rightarrow> error option" where
  \<comment> \<open>The three tests at the head of \<^verbatim>\<open>attention_decoder\<close>; \<open>attn_size\<close> is
      \<^verbatim>\<open>attention_states.get_shape()[2].value\<close>.\<close>
  "attention_decoder_checks decoder_inputs num_heads attn_size =
     (if decoder_inputs = []
      then Some error_no_inputs
      else if num_heads < 1
      then Some error_num_heads
      else if attn_size = None
      then Some error_attn_shape
      else None)"

definition maxout :: "mat \<Rightarrow> nat \<Rightarrow> mat" where
  \<comment> \<open>\<^verbatim>\<open>segment_max\<close> over the transposed rows with segment ids \<open>0, 0, 1, 1, ...\<close>: the
      maximum of every pair of adjacent entries.\<close>
  "maxout m maxout_size =
     map (\<lambda>row. map (\<lambda>j. max (row ! (2 * j)) (row ! (2 * j + 1))) [0..<maxout_size]) m"

definition attention_decoder_step ::
  "variables \<Rightarrow> (mat \<Rightarrow> cell_state \<Rightarrow> mat \<times> cell_state) \<Rightarrow> nat \<Rightarrow> tensor3 \<Rightarrow> nat \<Rightarrow> int
     \<Rightarrow> mat option \<Rightarrow> bool \<Rightarrow> mat option
     \<Rightarrow> input \<Rightarrow> cell_state \<Rightarrow> mat list \<Rightarrow> error + (mat \<times> cell_state \<times> mat list)" where
  \<comment> \<open>One round of the loop over \<^verbatim>\<open>decoder_inputs\<close>, from the test of the input size
      on; \<open>inp\<close> is the input after \<^verbatim>\<open>loop_function\<close>.\<close>
  "attention_decoder_step vars cell cell_output_size hidden attn_size num_heads
       src_mask maxout_layer bow_mask inp state attns =
     (case inp_size inp of
        None \<Rightarrow> Inl (error_input_size (inp_name inp))
      | Some input_size \<Rightarrow>
          (let x = linear (inp_value inp # attns) (Linear vars) True
           in case cell x state of
                (cell_output, state') \<Rightarrow>
                  (let attns' = attention vars hidden attn_size num_heads src_mask state';
                       output =
                         (if maxout_layer
                          then (let merge_output =
                                      linear (cell_output # inp_value inp # attns')
                                        (AttnMergeProjection vars) True;
                                    merge_output_plus_b = bias_add merge_output (maxout_b vars);
                                    maxout_size = cell_output_size div 2;
                                    maxout_output = maxout merge_output_plus_b maxout_size;
                                    output_embed =
                                      linear [maxout_output] (MaxoutOutputProjection_0 vars) False
                                in linear [output_embed] (MaxoutOutputProjection_1 vars) True)
                          else linear (cell_output # attns') (AttnOutputProjection vars) True);
                       output' = (case bow_mask of None \<Rightarrow> output | Some m \<Rightarrow> mul2 output m)
                   in Inr (output', state', attns'))))"

fun attention_decoder_loop ::
  "(input \<Rightarrow> cell_state \<Rightarrow> mat list \<Rightarrow> error + (mat \<times> cell_state \<times> mat list))
     \<Rightarrow> (mat \<Rightarrow> nat \<Rightarrow> input) option
     \<Rightarrow> nat \<Rightarrow> input list \<Rightarrow> cell_state \<Rightarrow> mat list \<Rightarrow> mat list \<Rightarrow> mat option
     \<Rightarrow> error + (mat list \<times> cell_state)" where
  "attention_decoder_loop step loop_function i [] state attns outputs prev =
     Inr (outputs, state)"
| "attention_decoder_loop step loop_function i (inp # rest) state attns outputs prev =
     (let inp' = (case loop_function of
                    None \<Rightarrow> inp
                  | Some f \<Rightarrow> (case prev of None \<Rightarrow> inp | Some p \<Rightarrow> f p i))
      in case step inp' state attns of
           Inl e \<Rightarrow> Inl e
         | Inr (output, state', attns') \<Rightarrow>
             attention_decoder_loop step loop_function (Suc i) rest state' attns'
               (outputs @ [output]) (if loop_function \<noteq> None then Some output else prev))"

definition attention_decoder ::
  "input list \<Rightarrow> cell_state \<Rightarrow> tensor3 \<Rightarrow> nat option \<Rightarrow> nat option
     \<Rightarrow> (mat \<Rightarrow> cell_state \<Rightarrow> mat \<times> cell_state) \<Rightarrow> cell_kind \<Rightarrow> nat
     \<Rightarrow> int \<Rightarrow> (mat \<Rightarrow> nat \<Rightarrow> input) option \<Rightarrow> bool \<Rightarrow> mat option \<Rightarrow> bool \<Rightarrow> string
     \<Rightarrow> bool \<Rightarrow> mat option \<Rightarrow> variables \<Rightarrow> error + (mat list \<times> cell_state)" where
  \<comment> \<open>\<open>attn_length\<close> and \<open>attn_size\<close> are dimensions 1 and 2 of the static shape of
      \<^verbatim>\<open>attention_states\<close> (\<^verbatim>\<open>get_shape()[1].value\<close> and \<^verbatim>\<open>get_shape()[2].value\<close>). A
      source length that is not statically known is replaced by a tensor, which the
      \<^verbatim>\<open>%d\<close> of the log line that follows refuses with TypeError. \<open>kind\<close> and
      \<open>cell_output_size\<close> describe \<open>cell\<close>; the cell states and the results of the
      cell have static shapes.\<close>
  "attention_decoder decoder_inputs initial_state attention_states attn_length attn_size
       cell kind cell_output_size num_heads loop_function initial_state_attention src_mask
       maxout_layer encoder init_const bow_mask vars =
     (case attention_decoder_checks decoder_inputs num_heads attn_size of
        Some e \<Rightarrow> Inl e
      | None \<Rightarrow>
          (case attn_length of
             None \<Rightarrow> Inl error_attn_length
           | Some attn_length' \<Rightarrow>
               (let batch_size = length (inp_value (hd decoder_inputs));
                    attn_size' = the attn_size;
                    hidden = attention_states;
                    state0 =
                      (if encoder = ''bow''
                       then (if init_const
                             then Inr (Tensor (DecInit vars))
                             else init_state kind hidden batch_size attn_length' attn_size'
                                    src_mask)
                       else Inr initial_state)
                in case state0 of
                     Inl e \<Rightarrow> Inl e
                   | Inr state \<Rightarrow>
                       (let attns =
                              (if initial_state_attention
                               then attention vars hidden attn_size' num_heads src_mask
                                      initial_state
                               else replicate (nat num_heads)
                                      (replicate batch_size (replicate attn_size' 0)))
                        in attention_decoder_loop
                             (attention_decoder_step vars cell cell_output_size hidden
                                attn_size' num_heads src_mask maxout_layer bow_mask)
                             loop_function 0 decoder_inputs state attns [] None))))"

section \<open>The latent variable: \<^verbatim>\<open>embedding_rnn_vae_seq2seq\<close>\<close>

definition kl_unit :: "real \<Rightarrow> real \<Rightarrow> real" where
  \<comment> \<open>One entry of \<^verbatim>\<open>kl_loss\<close>.\<close>
  "kl_unit z_mean z_log_var = - 0.5 * (1.0 + z_log_var - z_mean\<^sup>2 - exp z_log_var)"

definition kl_loss :: "mat \<Rightarrow> mat \<Rightarrow> mat" where
  "kl_loss z_mean z_log_var = map2 (map2 kl_unit) z_mean z_log_var"

definition reduce_mean0 :: "mat \<Rightarrow> vec" where
  \<comment> \<open>\<^verbatim>\<open>tf.reduce_mean(t, [0])\<close>: the mean over axis 0, the rows of the matrix (the batch),
      for every column.\<close>
  "reduce_mean0 t =
     map (\<lambda>j. (\<Sum>row\<leftarrow>t. row ! j) / real (length t)) [0..<ncols t]"

definition kl_obj :: "mat \<Rightarrow> mat \<Rightarrow> real \<Rightarrow> real option \<Rightarrow> real" where
  "kl_obj z_mean z_log_var kl_min anneal_scale =
     (let kl_step_av = reduce_mean0 (kl_loss z_mean z_log_var);
          obj = (if kl_min > 0.0
                 then reduce_sum (map (\<lambda>x. max x kl_min) kl_step_av)
                 else reduce_sum kl_step_av)
      in case anneal_scale of None \<Rightarrow> obj | Some a \<Rightarrow> a * obj)"

definition kl_obj_spec :: "mat \<Rightarrow> mat \<Rightarrow> real \<Rightarrow> real option \<Rightarrow> real" where
  \<comment> \<open>The aggregation in the words of the specification, for comparison: the mean
      across the latent dimension, every batch element floored at \<open>kl_min\<close>, the sum
      across the batch, the annealing coefficient.\<close>
  "kl_obj_spec z_mean z_log_var kl_min anneal_scale =
     (let per_example = map (\<lambda>row. sum_list row / real (length row)) (kl_loss z_mean z_log_var);
          obj = (if kl_min > 0
                 then sum_list (map (\<lambda>x. max x kl_min) per_example)
                 else sum_list per_example)
      in case anneal_scale of None \<Rightarrow> obj | Some a \<Rightarrow> a * obj)"

record vae_vars =
  z_mean_w :: mat
  z_mean_b :: vec
  z_logvar_w :: mat
  z_logvar_b :: vec
  dec_in_w :: mat
  dec_in_b :: vec

definition split2 :: "mat \<Rightarrow> mat list" where
  \<comment> \<open>\<^verbatim>\<open>tf.split(1, 2, t)\<close>: the left and the right half of every row.\<close>
  "split2 t = [map (take (ncols t div 2)) t, map (drop (ncols t div 2)) t]"

definition latent_mean :: "vae_vars \<Rightarrow> (mat \<Rightarrow> mat) \<Rightarrow> mat \<Rightarrow> mat" where
  "latent_mean vars transfer_func encoder_out_state =
     transfer_func (bias_add (matmul encoder_out_state (z_mean_w vars)) (z_mean_b vars))"

definition latent_log_var :: "vae_vars \<Rightarrow> (mat \<Rightarrow> mat) \<Rightarrow> mat \<Rightarrow> mat" where
  "latent_log_var vars transfer_func encoder_out_state =
     transfer_func (bias_add (matmul encoder_out_state (z_logvar_w vars)) (z_logvar_b vars))"

definition latent_z ::
  "mat \<Rightarrow> mat \<Rightarrow> mat \<Rightarrow> bool \<Rightarrow> bool \<Rightarrow> mat option \<Rightarrow> real option \<Rightarrow> mat \<times> real option" where
  \<comment> \<open>The latent vector and the \<^verbatim>\<open>feed_prev_p\<close> that the decoder gets; \<open>eps\<close> is the
      value of \<^verbatim>\<open>tf.random_normal(tf.shape(z_log_var), 0, 1)\<close>.\<close>
  "latent_z z_mean z_log_var eps sample_mean feed_previous latent_state feed_prev_p =
     (let z = map2 (map2 (+)) z_mean (mul2 (map (map (\<lambda>x. sqrt (exp x))) z_log_var) eps);
          z' = (if sample_mean \<and> feed_previous then z_mean else z)
      in case latent_state of
           None \<Rightarrow> (z', feed_prev_p)
         | Some l \<Rightarrow> (l, None))"

definition decoder_initial_state ::
  "vae_vars \<Rightarrow> (mat \<Rightarrow> mat) \<Rightarrow> bool \<Rightarrow> bool \<Rightarrow> mat \<Rightarrow> mat \<Rightarrow> error + cell_state" where
  \<comment> \<open>\<open>state_is_tuple\<close> is \<^verbatim>\<open>isinstance(enc_cell.state_size, tuple)\<close>. With
      \<^verbatim>\<open>concat_encoded\<close> and a state that is no tuple the code reads \<^verbatim>\<open>initial_state\<close>
      before it is assigned.\<close>
  "decoder_initial_state vars transfer_func state_is_tuple concat_encoded encoder_out_state z =
     (if concat_encoded
      then (if state_is_tuple
            then Inr (Tuple (map (\<lambda>state. concat1 [state, z]) (split2 encoder_out_state)))
            else Inl (UnboundLocalError
                   ''local variable initial_state referenced before assignment''))
      else (let initial_state =
                  transfer_func (bias_add (matmul z (dec_in_w vars)) (dec_in_b vars))
            in if state_is_tuple
               then Inr (Tuple (split2 initial_state))
               else Inr (Tensor initial_state)))"

definition embedding_rnn_vae_seq2seq ::
  "mat \<Rightarrow> nat list list \<Rightarrow> (mat \<Rightarrow> cell_state \<Rightarrow> mat \<times> cell_state) \<Rightarrow> bool \<Rightarrow> mat
     \<Rightarrow> (mat \<Rightarrow> mat) \<Rightarrow> (mat \<times> vec) option \<Rightarrow> bool \<Rightarrow> mat option \<Rightarrow> real option \<Rightarrow> real
     \<Rightarrow> real option \<Rightarrow> bool \<Rightarrow> bool \<Rightarrow> vae_vars \<Rightarrow> mat \<Rightarrow> (nat \<Rightarrow> real)
     \<Rightarrow> error + (mat list \<times> mat \<times> real)" where
  \<comment> \<open>From \<^verbatim>\<open># Latent state\<close> on, for a \<^verbatim>\<open>feed_previous\<close> that is a Python \<^verbatim>\<open>bool\<close>.
      \<open>encoder_out_state\<close> is the final state of the encoder (concatenated when it is a
      tuple), \<open>embedding\<close> the decoder's embedding variable, \<open>eps\<close> and \<open>rv\<close> the random
      draws.\<close>
  "embedding_rnn_vae_seq2seq encoder_out_state decoder_inputs dec_cell state_is_tuple embedding
       transfer_func output_projection feed_previous latent_state feed_prev_p kl_min
       anneal_scale sample_mean concat_encoded vars eps rv =
     (let z_mean = latent_mean vars transfer_func encoder_out_state;
          z_log_var = latent_log_var vars transfer_func encoder_out_state;
          kl = kl_obj z_mean z_log_var kl_min anneal_scale
      in case latent_z z_mean z_log_var eps sample_mean feed_previous latent_state feed_prev_p of
           (z, feed_prev_p') \<Rightarrow>
             (case decoder_initial_state vars transfer_func state_is_tuple concat_encoded
                     encoder_out_state z of
                Inl e \<Rightarrow> Inl e
              | Inr initial_state \<Rightarrow>
                  (case embedding_rnn_decoder decoder_inputs initial_state dec_cell embedding
                          output_projection feed_previous True feed_prev_p' rv of
                     Inl e \<Rightarrow> Inl e
                   | Inr (outputs, state) \<Rightarrow> Inr (outputs, z, kl))))"

section \<open>Losses: \<^verbatim>\<open>sequence_loss_by_example\<close> and \<^verbatim>\<open>sequence_loss\<close>\<close>

text \<open>
  The shapes of the tensors are static: an operation on tensors whose shapes do not fit
  raises ValueError when the graph is built. The labels of the default loss are taken
  below the number of classes.
\<close>

definition error_shapes :: error where
  "error_shapes = ValueError ''Dimensions must be equal''"

definition error_add_n :: error where
  "error_add_n =
     ValueError ''inputs must be a list of at least one Tensor with the same dtype and shape''"

definition broadcast :: "(real \<Rightarrow> real \<Rightarrow> real) \<Rightarrow> vec \<Rightarrow> vec \<Rightarrow> error + vec" where
  \<comment> \<open>An entrywise operation (\<^verbatim>\<open>*\<close>, \<^verbatim>\<open>/\<close>) on two tensors of rank 1: entry by entry for
      equal sizes, a tensor of size 1 is broadcast, other sizes do not fit.\<close>
  "broadcast f x y =
     (if length x = length y then Inr (map2 f x y)
      else if length x = 1 then Inr (map (f (hd x)) y)
      else if length y = 1 then Inr (map (\<lambda>a. f a (hd y)) x)
      else Inl error_shapes)"

definition add_n :: "vec list \<Rightarrow> error + vec" where
  \<comment> \<open>\<^verbatim>\<open>math_ops.add_n\<close>: the entrywise sum of a list of at least one tensor, all of one
      shape; the library raises ValueError for an empty list and for shapes that
      differ.\<close>
  "add_n inputs =
     (case inputs of
        [] \<Rightarrow> Inl error_add_n
      | x # xs \<Rightarrow>
          (if list_all (\<lambda>v. length v = length x) xs
           then Inr (foldl (map2 (+)) x xs)
           else Inl error_shapes))"

definition sparse_softmax_cross_entropy_with_logits :: "mat \<Rightarrow> nat list \<Rightarrow> error + vec" where
  \<comment> \<open>\<^verbatim>\<open>nn_ops.sparse_softmax_cross_entropy_with_logits\<close>: for every batch element minus
      the logarithm of the softmax of its logits at its label.\<close>
  "sparse_softmax_cross_entropy_with_logits logit target =
     (if length logit = length target
      then Inr (map2 (\<lambda>row t. - ln (softmax_row row ! t)) logit target)
      else Inl error_shapes)"

definition crossent ::
  "(mat \<Rightarrow> nat list \<Rightarrow> vec) option \<Rightarrow> mat \<Rightarrow> nat list \<Rightarrow> error + vec" where
  "crossent softmax_loss_function logit target =
     (case softmax_loss_function of
        None \<Rightarrow> sparse_softmax_cross_entropy_with_logits logit target
      | Some f \<Rightarrow> Inr (f logit target))"

fun log_perp_list ::
  "(mat \<Rightarrow> nat list \<Rightarrow> vec) option \<Rightarrow> (mat \<times> nat list \<times> vec) list \<Rightarrow> error + vec list" where
  \<comment> \<open>The loop over \<^verbatim>\<open>zip(logits, targets, weights)\<close>.\<close>
  "log_perp_list softmax_loss_function [] = Inr []"
| "log_perp_list softmax_loss_function ((logit, target, weight) # rest) =
     (case crossent softmax_loss_function logit target of
        Inl e \<Rightarrow> Inl e
      | Inr c \<Rightarrow>
          (case broadcast (*) c weight of
             Inl e \<Rightarrow> Inl e
           | Inr p \<Rightarrow>
               (case log_perp_list softmax_loss_function rest of
                  Inl e \<Rightarrow> Inl e
                | Inr ps \<Rightarrow> Inr (p # ps))))"

definition sequence_loss_by_example ::
  "mat list \<Rightarrow> nat list list \<Rightarrow> vec list \<Rightarrow> bool \<Rightarrow> (mat \<Rightarrow> nat list \<Rightarrow> vec) option
     \<Rightarrow> error + vec" where
  "sequence_loss_by_example logits targets weights average_across_timesteps
       softmax_loss_function =
     (if length targets \<noteq> length logits \<or> length weights \<noteq> length logits
      then Inl (ValueError ''Lengths of logits, weights, and targets must be the same'')
      else (case log_perp_list softmax_loss_function (zip logits (zip targets weights)) of
              Inl e \<Rightarrow> Inl e
            | Inr lpl \<Rightarrow>
                (case add_n lpl of
                   Inl e \<Rightarrow> Inl e
                 | Inr log_perps \<Rightarrow>
                     (if average_across_timesteps
                      then (case add_n weights of
                              Inl e \<Rightarrow> Inl e
                            | Inr total_size \<Rightarrow>
                                broadcast (/) log_perps (map (\<lambda>x. x + 1 / 10 ^ 12) total_size))
                      else Inr log_perps))))"

definition sequence_loss ::
  "mat list \<Rightarrow> nat list list \<Rightarrow> vec list \<Rightarrow> bool \<Rightarrow> bool \<Rightarrow> (mat \<Rightarrow> nat list \<Rightarrow> vec) option
     \<Rightarrow> error + real" where
  "sequence_loss logits targets weights average_across_timesteps average_across_batch
       softmax_loss_function =
     (case sequence_loss_by_example logits targets weights average_across_timesteps
             softmax_loss_function of
        Inl e \<Rightarrow> Inl e
      | Inr per_example \<Rightarrow>
          (let cost = reduce_sum per_example
           in if average_across_batch
              then (case targets of
                      [] \<Rightarrow> Inl (IndexError ''list index out of range'')
                    | t0 # _ \<Rightarrow> Inr (cost / real (length t0)))
              else Inr cost))"

section \<open>Buckets: \<^verbatim>\<open>model_with_buckets_states\<close> and \<^verbatim>\<open>model_with_buckets\<close>\<close>

text \<open>
  A bucket is a pair of lengths. The loss of a bucket is a scalar, or one value per
  batch element when \<^verbatim>\<open>per_example_loss\<close> is set; a model that returns three values
  adds its KL term.
\<close>

datatype loss = Scalar real | PerExample vec

type_synonym ('e, 'd, 'es, 'st) seq2seq =
  "'e list \<Rightarrow> 'd list \<Rightarrow> nat \<Rightarrow> 'es \<Rightarrow> real option \<Rightarrow> error + (mat list \<times> 'st \<times> real option)"

definition bucket_loss ::
  "mat list \<Rightarrow> nat list list \<Rightarrow> vec list \<Rightarrow> (mat \<Rightarrow> nat list \<Rightarrow> vec) option \<Rightarrow> bool
     \<Rightarrow> error + loss" where
  "bucket_loss outputs targets weights softmax_loss_function per_example_loss =
     (if per_example_loss
      then (case sequence_loss_by_example outputs targets weights True softmax_loss_function of
              Inl e \<Rightarrow> Inl e
            | Inr l \<Rightarrow> Inr (PerExample l))
      else (case sequence_loss outputs targets weights True True softmax_loss_function of
              Inl e \<Rightarrow> Inl e
            | Inr l \<Rightarrow> Inr (Scalar l)))"

definition kl_term :: "real \<Rightarrow> vec list \<Rightarrow> error + real" where
  \<comment> \<open>\<^verbatim>\<open>tf.reduce_mean(kl_obj / total_size)\<close>.\<close>
  "kl_term kl weights =
     (case add_n weights of
        Inl e \<Rightarrow> Inl e
      | Inr sum_weights \<Rightarrow>
          (let total_size = map (\<lambda>x. x + 1 / 10 ^ 12) sum_weights;
               q = map (\<lambda>x. kl / x) total_size
           in Inr (sum_list q / real (length q))))"

fun bucket_loop ::
  "('e, 'd, 'es, 'st) seq2seq \<Rightarrow> 'e list \<Rightarrow> 'd list \<Rightarrow> nat list list \<Rightarrow> vec list
     \<Rightarrow> (mat \<Rightarrow> nat list \<Rightarrow> vec) option \<Rightarrow> bool \<Rightarrow> 'es \<Rightarrow> real option
     \<Rightarrow> (nat \<times> nat) list
     \<Rightarrow> mat list list \<Rightarrow> (loss \<times> real option) list \<Rightarrow> 'st list
     \<Rightarrow> error + (mat list list \<times> (loss \<times> real option) list \<times> 'st list)" where
  "bucket_loop seq2seq encoder_inputs decoder_inputs targets weights softmax_loss_function
       per_example_loss encoder_states feed_prev_p [] outputs losses states =
     Inr (outputs, losses, states)"
| "bucket_loop seq2seq encoder_inputs decoder_inputs targets weights softmax_loss_function
       per_example_loss encoder_states feed_prev_p (bucket # rest) outputs losses states =
     (case seq2seq (take (fst bucket) encoder_inputs) (take (snd bucket) decoder_inputs)
             (fst bucket) encoder_states feed_prev_p of
        Inl e \<Rightarrow> Inl e
      | Inr (out, state, kl) \<Rightarrow>
          (case bucket_loss out (take (snd bucket) targets) (take (snd bucket) weights)
                  softmax_loss_function per_example_loss of
             Inl e \<Rightarrow> Inl e
           | Inr l \<Rightarrow>
               (case (case kl of
                        None \<Rightarrow> Inr None
                      | Some k \<Rightarrow>
                          (case kl_term k (take (snd bucket) weights) of
                             Inl e \<Rightarrow> Inl e
                           | Inr t \<Rightarrow> Inr (Some t))) of
                  Inl e \<Rightarrow> Inl e
                | Inr kl' \<Rightarrow>
                    bucket_loop seq2seq encoder_inputs decoder_inputs targets weights
                      softmax_loss_function per_example_loss encoder_states feed_prev_p rest
                      (outputs @ [out]) (losses @ [(l, kl')]) (states @ [state]))))"

definition model_with_buckets_states ::
  "'e list \<Rightarrow> 'd list \<Rightarrow> nat list list \<Rightarrow> vec list \<Rightarrow> (nat \<times> nat) list
     \<Rightarrow> ('e, 'd, 'es, 'st) seq2seq \<Rightarrow> (mat \<Rightarrow> nat list \<Rightarrow> vec) option \<Rightarrow> bool \<Rightarrow> 'es
     \<Rightarrow> real option
     \<Rightarrow> error + (mat list list \<times> (loss \<times> real option) list \<times> 'st list)" where
  \<comment> \<open>\<^verbatim>\<open>buckets[-1]\<close> of an empty list is Python's IndexError.\<close>
  "model_with_buckets_states encoder_inputs decoder_inputs targets weights buckets seq2seq
       softmax_loss_function per_example_loss encoder_states feed_prev_p =
     (if buckets = []
      then Inl (IndexError ''list index out of range'')
      else if length encoder_inputs < fst (last buckets)
      then Inl (ValueError ''Length of encoder_inputs must be at least that of last bucket'')
      else if length targets < snd (last buckets)
      then Inl (ValueError ''Length of targets must be at least that of lastbucket'')
      else if length weights < snd (last buckets)
      then Inl (ValueError ''Length of weights must be at least that of lastbucket'')
      else bucket_loop seq2seq encoder_inputs decoder_inputs targets weights
             softmax_loss_function per_example_loss encoder_states feed_prev_p buckets
             [] [] [])"

definition model_with_buckets ::
  "'e list \<Rightarrow> 'd list \<Rightarrow> nat list list \<Rightarrow> vec list \<Rightarrow> (nat \<times> nat) list
     \<Rightarrow> ('e, 'd, 'es option, 'st) seq2seq \<Rightarrow> (mat \<Rightarrow> nat list \<Rightarrow> vec) option \<Rightarrow> bool
     \<Rightarrow> error + (mat list list \<times> (loss \<times> real option) list)" where
  "model_with_buckets encoder_inputs decoder_inputs targets weights buckets seq2seq
       softmax_loss_function per_example_loss =
     (case model_with_buckets_states encoder_inputs decoder_inputs targets weights buckets
             seq2seq softmax_loss_function per_example_loss None None of
        Inl e \<Rightarrow> Inl e
      | Inr (outputs, losses, states) \<Rightarrow> Inr (outputs, losses))"

section \<open>Example inputs\<close>

text \<open>
  A cell whose output and new state are its input; the decoder of
  \<^verbatim>\<open>basic_rnn_seq2seq\<close> (\<^verbatim>\<open>rnn_decoder(decoder_inputs, enc_state, cell)\<close>) and
  \<^verbatim>\<open>attention_decoder\<close> over this cell, as models for \<^verbatim>\<open>model_with_buckets\<close>; variables
  for one attention head over attention states of width 1.
\<close>

definition example_cell :: "mat \<Rightarrow> cell_state \<Rightarrow> mat \<times> cell_state" where
  "example_cell x state = (x, Tensor x)"

definition example_variables :: variables where
  "example_variables =
     \<lparr>AttnW = (\<lambda>_. [[1]]), AttnV = (\<lambda>_. [1]),
      Attention = (\<lambda>_. \<lparr>Matrix = [[0]], Bias = [0]\<rparr>),
      Linear = \<lparr>Matrix = [[1], [0]], Bias = [0]\<rparr>,
      AttnOutputProjection = \<lparr>Matrix = [[1], [0]], Bias = [0]\<rparr>,
      AttnMergeProjection = \<lparr>Matrix = [], Bias = []\<rparr>,
      maxout_b = [],
      MaxoutOutputProjection_0 = \<lparr>Matrix = [], Bias = []\<rparr>,
      MaxoutOutputProjection_1 = \<lparr>Matrix = [], Bias = []\<rparr>,
      DecInit = []\<rparr>"

definition example_rnn_seq2seq :: "(mat, mat, unit option, cell_state) seq2seq" where
  "example_rnn_seq2seq encoder_inputs decoder_inputs n encoder_states feed_prev_p =
     (case rnn_decoder decoder_inputs (Tensor []) example_cell None None (\<lambda>_. 0) of
        Inl e \<Rightarrow> Inl e
      | Inr (outputs, state) \<Rightarrow> Inr (outputs, state, None))"

definition example_attention_decoder ::
  "input list \<Rightarrow> (mat \<Rightarrow> nat \<Rightarrow> input) option \<Rightarrow> mat option
     \<Rightarrow> error + (mat list \<times> cell_state)" where
  "example_attention_decoder decoder_inputs loop_function src_mask =
     attention_decoder decoder_inputs (Tensor [[0]]) [[[1], [2]]] (Some 2) (Some 1) example_cell
       Other_cell 1 1 loop_function False src_mask False ''reverse'' False None
       example_variables"

definition example_attention_seq2seq :: "(mat, input, unit option, cell_state) seq2seq" where
  "example_attention_seq2seq encoder_inputs decoder_inputs n encoder_states feed_prev_p =
     (case example_attention_decoder decoder_inputs None None of
        Inl e \<Rightarrow> Inl e
      | Inr (outputs, state) \<Rightarrow> Inr (outputs, state, None))"

section \<open>Properties of the decoder loop\<close>

lemma decoder_input_scheduled:
  "decoder_input (Some f) (Some p) r (Some prev) inp i
     = Inr (if r < p then inp else f prev i)"
  by (simp add: decoder_input_def cond_def inner_loop_def)

lemma decoder_input_first_step:
  "decoder_input (Some f) feed_prev_p r None inp i = Inr inp"
  by (simp add: decoder_input_def cond_def inner_loop_def split: option.splits)

lemma decoder_input_no_loop_function:
  "decoder_input None (Some p) r prev inp i = Inl (TypeError ''pred must not be a Python bool'')"
  by (simp add: decoder_input_def)

lemma decoder_input_total:
  "(loop_function = None \<longrightarrow> feed_prev_p = None) \<Longrightarrow>
     \<exists>x. decoder_input loop_function feed_prev_p r prev inp i = Inr x"
  by (cases loop_function; cases feed_prev_p)
     (auto simp: decoder_input_def cond_def inner_loop_def Let_def)

lemma rnn_decoder_loop_total:
  "(loop_function = None \<longrightarrow> feed_prev_p = None) \<Longrightarrow>
     \<exists>outs st. rnn_decoder_loop cell loop_function feed_prev_p rv i inputs state outputs prev
        = Inr (outs, st)"
proof (induction inputs arbitrary: i state outputs prev)
  case Nil
  then show ?case by simp
next
  case (Cons inp rest)
  from decoder_input_total [OF Cons.prems] obtain x where
    x: "decoder_input loop_function feed_prev_p (rv i) prev inp i = Inr x" by blast
  obtain out state' where c: "cell x state = (out, state')" by (cases "cell x state")
  from Cons.IH [OF Cons.prems] show ?case by (simp add: x c)
qed

lemma rnn_decoder_loop_length:
  "rnn_decoder_loop cell loop_function feed_prev_p rv i inputs state outputs prev = Inr (outs, st)
     \<Longrightarrow> length outs = length outputs + length inputs"
proof (induction inputs arbitrary: i state outputs prev)
  case Nil
  then show ?case by simp
next
  case (Cons inp rest)
  then show ?case by (fastforce split: sum.splits prod.splits)
qed

lemma rnn_decoder_length:
  "rnn_decoder decoder_inputs initial_state cell loop_function feed_prev_p rv = Inr (outs, st)
     \<Longrightarrow> length outs = length decoder_inputs"
  unfolding rnn_decoder_def by (drule rnn_decoder_loop_length) simp

lemma embedding_rnn_decoder_total:
  "\<exists>outs st. embedding_rnn_decoder decoder_inputs initial_state cell embedding
      output_projection feed_previous update_embedding feed_prev_p rv = Inr (outs, st)"
  unfolding embedding_rnn_decoder_def rnn_decoder_def Let_def
  by (rule rnn_decoder_loop_total) simp

text \<open>
  C1. With scheduled sampling and \<^verbatim>\<open>feed_prev_p = 1\<close> the input of every step after
  step 0 should be the embedding of the argmax of the previous output. The two
  branches of the \<^verbatim>\<open>cond\<close> are exchanged: for \<open>r < feed_prev_p\<close> the code takes the
  ground-truth input. Here the cell returns its input as output, the tokens are
  \<open>[0, 1]\<close> and the draw is \<open>1/2 < 1\<close>: the argmax of the output of step 0 is symbol 0,
  yet step 1 is fed (and returns) the embedding of the ground-truth symbol 1.
\<close>

theorem rnn_decoder_feed_prev_p_one_teacher_forces:
  "embedding_rnn_decoder [[0], [1]] () (\<lambda>inp st. (inp, st)) [[1, 0], [0, 1]] None
       False True (Some 1) (\<lambda>_. 1 / 2)
     = Inr ([[[1, 0]], [[0, 1]]], ())
   \<and> extract_argmax_and_embed [[1, 0], [0, 1]] None True [[1, 0]] 1 = [[1, 0]]"
  by (simp add: embedding_rnn_decoder_def rnn_decoder_def decoder_input_def cond_def
      inner_loop_def extract_argmax_and_embed_def embedding_lookup_def argmax_def)

section \<open>Properties of the KL term\<close>

text \<open>
  C8. Every entry of \<^verbatim>\<open>kl_loss\<close>, \<open>-0.5 * (1 + log_var - mean^2 - exp(log_var))\<close>, is
  non-negative, for all real \<open>mean\<close> and \<open>log_var\<close>.
\<close>

theorem kl_unit_nonneg: "0 \<le> kl_unit z_mean z_log_var"
proof -
  have "1 + z_log_var \<le> exp z_log_var"
    by (rule exp_ge_add_one_self)
  moreover have "0 \<le> z_mean\<^sup>2"
    by simp
  ultimately have "1 + z_log_var - z_mean\<^sup>2 \<le> exp z_log_var"
    by linarith
  then show ?thesis
    unfolding kl_unit_def by simp
qed

section \<open>Properties of the attention weights\<close>

lemma sum_list_exp_pos: "s \<noteq> [] \<Longrightarrow> 0 < (\<Sum>y\<leftarrow>s. exp (y::real))"
proof (cases s)
  case Nil
  moreover assume "s \<noteq> []"
  ultimately show ?thesis by simp
next
  case (Cons a t)
  have "0 \<le> (\<Sum>y\<leftarrow>t. exp (y::real))"
    by (rule sum_list_nonneg) auto
  moreover have "0 < exp a" by simp
  ultimately show ?thesis using Cons by (simp add: add_pos_nonneg)
qed

lemma sum_list_divide: "(\<Sum>x\<leftarrow>s. f x / (c::real)) = (\<Sum>x\<leftarrow>s. f x) / c"
  by (induction s) (simp_all add: add_divide_distrib)

lemma softmax_row_sum: "s \<noteq> [] \<Longrightarrow> sum_list (softmax_row s) = 1"
proof -
  assume ne: "s \<noteq> []"
  have "sum_list (softmax_row s) = (\<Sum>x\<leftarrow>s. exp x) / (\<Sum>y\<leftarrow>s. exp y)"
    unfolding softmax_row_def by (simp add: sum_list_divide o_def)
  with sum_list_exp_pos [OF ne] show ?thesis by simp
qed

lemma softmax_row_pos: "x \<in> set (softmax_row s) \<Longrightarrow> 0 < x"
proof -
  assume x: "x \<in> set (softmax_row s)"
  then have "s \<noteq> []" by (auto simp: softmax_row_def)
  with sum_list_exp_pos have "0 < (\<Sum>y\<leftarrow>s. exp y)" by blast
  with x show ?thesis by (auto simp: softmax_row_def)
qed

lemma attention_weights_pos:
  "row \<in> set (attention_weights vars hidden src_mask query i) \<Longrightarrow> x \<in> set row \<Longrightarrow> 0 < x"
  unfolding attention_weights_def softmax_def Let_def
  by (auto dest: softmax_row_pos)

lemma attention_weights_sum:
  "row \<in> set (attention_weights vars hidden src_mask query i) \<Longrightarrow> row \<noteq> []
     \<Longrightarrow> sum_list row = 1"
proof -
  assume "row \<in> set (attention_weights vars hidden src_mask query i)" and ne: "row \<noteq> []"
  then obtain s where row: "row = softmax_row s"
    unfolding attention_weights_def softmax_def Let_def by auto
  with ne have "s \<noteq> []" by (auto simp: softmax_row_def)
  then show ?thesis unfolding row by (rule softmax_row_sum)
qed

text \<open>
  C2. The weights of a head sum to 1 along the source positions
  (\<open>attention_weights_sum\<close>), but a position whose \<^verbatim>\<open>src_mask\<close> is zero does not get
  the weight 0: the mask multiplies the scores before the softmax, the score of a
  masked position becomes 0, and its weight is \<open>exp 0\<close> over the sum, which is
  positive (\<open>attention_weights_pos\<close>). Here, for one batch element, two source
  positions and the mask \<open>[1, 0]\<close>, the masked position has the weight
  \<open>1 / (exp (tanh 1) + 1)\<close>.
\<close>

theorem attention_weights_masked_position:
  "attention_weights example_variables [[[1], [2]]] (Some [[1, 0]]) [[0]] 0
     = [[exp (tanh 1) / (exp (tanh 1) + 1), 1 / (exp (tanh 1) + 1)]] \<and>
   attention_weights example_variables [[[1], [2]]] (Some [[1, 0]]) [[0]] 0 ! 0 ! 1 \<noteq> 0"
proof -
  have w: "attention_weights example_variables [[[1], [2]]] (Some [[1, 0]]) [[0]] 0
     = [[exp (tanh 1) / (exp (tanh 1) + 1), 1 / (exp (tanh 1) + 1)]]"
    by (simp add: attention_weights_def example_variables_def linear_def concat1_def
        matmul_def ncols_def bias_add_def attention_scores_def hidden_features_def mul2_def
        softmax_def softmax_row_def reduce_sum_def)
  have "0 < exp (tanh 1 :: real) + 1"
    by (simp add: add_pos_pos)
  then have "1 / (exp (tanh 1 :: real) + 1) \<noteq> 0"
    by simp
  with w show ?thesis by simp
qed

section \<open>Sums over lists and over indices\<close>

lemma sum_list_upt: "(\<Sum>j\<leftarrow>[0..<n]. f j) = (\<Sum>j<n. (f j :: real))"
  by (simp add: interv_sum_list_conv_sum_set_nat atLeast0LessThan)

lemma sum_list_nth_col: "(\<Sum>row\<leftarrow>t. g row) = (\<Sum>b<length t. (g (t ! b) :: real))"
  by (simp add: sum_list_sum_nth atLeast0LessThan)

section \<open>Properties of the KL aggregation\<close>

lemma kl_loss_nth:
  "b < length z_mean \<Longrightarrow> b < length z_log_var \<Longrightarrow> j < length (z_mean ! b) \<Longrightarrow> j < length (z_log_var ! b)
   \<Longrightarrow> kl_loss z_mean z_log_var ! b ! j = kl_unit (z_mean ! b ! j) (z_log_var ! b ! j)"
  by (simp add: kl_loss_def)

lemma ncols_kl_loss:
  "z_mean \<noteq> [] \<Longrightarrow> length z_log_var = length z_mean \<Longrightarrow> \<forall>row\<in>set z_mean. length row = L \<Longrightarrow>
   \<forall>row\<in>set z_log_var. length row = L \<Longrightarrow> ncols (kl_loss z_mean z_log_var) = L"
  by (cases z_mean; cases z_log_var) (auto simp: ncols_def kl_loss_def)

text \<open>
  C3, as the code has it. For \<open>B > 0\<close> batch elements and \<open>L\<close> latent units the KL
  objective is the sum, over the latent units, of the mean over the batch of the unit's
  KL values, every such mean floored at \<open>kl_min\<close> when \<open>kl_min > 0\<close>; the sum is
  multiplied by the annealing coefficient when one is given.
\<close>

theorem kl_obj_aggregation:
  assumes ne: "z_mean \<noteq> []" and len: "length z_log_var = length z_mean"
    and m: "\<forall>row\<in>set z_mean. length row = L" and v: "\<forall>row\<in>set z_log_var. length row = L"
  shows "kl_obj z_mean z_log_var kl_min anneal_scale =
     (case anneal_scale of None \<Rightarrow> 1 | Some a \<Rightarrow> a) *
     (\<Sum>j<L. let av = (\<Sum>b<length z_mean. kl_unit (z_mean ! b ! j) (z_log_var ! b ! j))
                         / real (length z_mean)
             in if kl_min > 0 then max av kl_min else av)"
proof -
  let ?kl = "kl_loss z_mean z_log_var"
  have lkl: "length ?kl = length z_mean" using len by (simp add: kl_loss_def)
  have col: "(\<Sum>row\<leftarrow>?kl. row ! j) = (\<Sum>b<length z_mean. kl_unit (z_mean ! b ! j) (z_log_var ! b ! j))"
    if "j < L" for j
  proof -
    have "(\<Sum>row\<leftarrow>?kl. row ! j) = (\<Sum>b<length ?kl. ?kl ! b ! j)"
      by (rule sum_list_nth_col)
    also have "\<dots> = (\<Sum>b<length z_mean. kl_unit (z_mean ! b ! j) (z_log_var ! b ! j))"
      unfolding lkl using that m v len by (intro sum.cong refl kl_loss_nth) auto
    finally show ?thesis .
  qed
  have av: "reduce_mean0 ?kl =
      map (\<lambda>j. (\<Sum>b<length z_mean. kl_unit (z_mean ! b ! j) (z_log_var ! b ! j)) / real (length z_mean)) [0..<L]"
    unfolding reduce_mean0_def ncols_kl_loss [OF ne len m v] lkl
    by (rule map_cong) (simp_all add: col)
  show ?thesis
    unfolding kl_obj_def av reduce_sum_def
    by (simp add: Let_def map_map comp_def sum_list_upt split: option.splits)
qed

theorem kl_obj_aggregation_witness:
  "kl_obj [[2, 0], [0, 0]] [[0, 0], [0, 0]] (1 / 2) (Some (1 / 2)) = 3 / 4"
  using kl_obj_aggregation [of "[[2, 0], [0, 0]]" "[[0, 0], [0, 0]]" 2 "1 / 2" "Some (1 / 2)"]
  by (simp add: kl_unit_def lessThan_Suc numeral_2_eq_2)

text \<open>
  C3, as the specification words it (the mean across the latent dimension, the floor
  per batch element, the sum across the batch), differs from the code: for one batch
  element with KL values \<open>2\<close> and \<open>0\<close> the code returns their sum \<open>2\<close>, the
  specification's aggregation their mean \<open>1\<close>.
\<close>

theorem kl_obj_not_latent_mean:
  "kl_obj [[2, 0]] [[0, 0]] 0 None \<noteq> kl_obj_spec [[2, 0]] [[0, 0]] 0 None"
  by (simp add: kl_obj_def kl_obj_spec_def kl_loss_def kl_unit_def reduce_mean0_def
      ncols_def reduce_sum_def)

section \<open>Properties of the attention decoder\<close>












section \<open>Properties of the losses\<close>

lemma foldl_map2_add:
  "length x = B \<Longrightarrow> \<forall>v\<in>set xs. length v = B \<Longrightarrow>
     length (foldl (map2 (+)) x xs) = B \<and>
     (\<forall>b<B. foldl (map2 (+)) x xs ! b = (x ! b :: real) + (\<Sum>v\<leftarrow>xs. v ! b))"
proof (induction xs arbitrary: x)
  case Nil
  then show ?case by simp
next
  case (Cons v vs)
  have l: "length (map2 (+) x v) = B" using Cons.prems by simp
  have "\<forall>v\<in>set vs. length v = B" using Cons.prems by simp
  from Cons.IH [OF l this] show ?case using Cons.prems by (auto simp: algebra_simps)
qed

lemma add_n_nth:
  assumes "inputs \<noteq> []" and "\<forall>v\<in>set inputs. length v = B"
  shows "\<exists>r. add_n inputs = Inr r \<and> length r = B \<and>
           (\<forall>b<B. r ! b = (\<Sum>i<length inputs. inputs ! i ! b))"
proof (cases inputs)
  case Nil
  with assms show ?thesis by simp
next
  case (Cons x xs)
  have x: "length x = B" "\<forall>v\<in>set xs. length v = B" using assms Cons by auto
  from foldl_map2_add [OF this]
  have "length (foldl (map2 (+)) x xs) = B"
    and "\<forall>b<B. foldl (map2 (+)) x xs ! b = x ! b + (\<Sum>v\<leftarrow>xs. v ! b)" by auto
  moreover have "(\<Sum>i<length inputs. inputs ! i ! b) = x ! b + (\<Sum>v\<leftarrow>xs. v ! b)" for b
    unfolding Cons using sum_list_nth_col [of "\<lambda>v. v ! b" "x # xs"] by simp
  moreover have "list_all (\<lambda>v. length v = length x) xs"
    using x by (simp add: list_all_iff)
  ultimately show ?thesis by (simp add: add_n_def Cons)
qed

lemma crossent_value:
  "length logit = length target \<Longrightarrow>
     crossent softmax_loss_function logit target =
       Inr (case softmax_loss_function of
              None \<Rightarrow> map2 (\<lambda>row t. - ln (softmax_row row ! t)) logit target
            | Some f \<Rightarrow> f logit target)"
  by (simp add: crossent_def sparse_softmax_cross_entropy_with_logits_def split: option.splits)

lemma log_perp_list_value:
  fixes softmax_loss_function :: "(mat \<Rightarrow> nat list \<Rightarrow> vec) option" and cv
  defines "cv \<equiv> \<lambda>logit target.
      (case softmax_loss_function of
         None \<Rightarrow> map2 (\<lambda>row t. - ln (softmax_row row ! t)) logit target
       | Some f \<Rightarrow> f logit target)"
  assumes "\<forall>z\<in>set zs. length (fst z) = length (fst (snd z)) \<and>
      length (cv (fst z) (fst (snd z))) = length (snd (snd z))"
  shows "log_perp_list softmax_loss_function zs =
      Inr (map (\<lambda>z. map2 (*) (cv (fst z) (fst (snd z))) (snd (snd z))) zs)"
  using assms(2)
proof (induction zs)
  case Nil
  then show ?case by simp
next
  case (Cons z zs)
  obtain logit target weight where z: "z = (logit, target, weight)" by (cases z)
  from Cons.prems have l: "length logit = length target"
    and c: "length (cv logit target) = length weight" by (auto simp: z)
  have "crossent softmax_loss_function logit target = Inr (cv logit target)"
    unfolding cv_def by (rule crossent_value [OF l])
  moreover have "broadcast (*) (cv logit target) weight = Inr (map2 (*) (cv logit target) weight)"
    using c by (simp add: broadcast_def)
  moreover have "log_perp_list softmax_loss_function zs =
      Inr (map (\<lambda>z. map2 (*) (cv (fst z) (fst (snd z))) (snd (snd z))) zs)"
    using Cons by simp
  ultimately show ?case by (simp add: z)
qed

lemma sequence_loss_by_example_value:
  fixes softmax_loss_function :: "(mat \<Rightarrow> nat list \<Rightarrow> vec) option" and cv
  defines "cv \<equiv> \<lambda>logit target.
      (case softmax_loss_function of
         None \<Rightarrow> map2 (\<lambda>row t. - ln (softmax_row row ! t)) logit target
       | Some f \<Rightarrow> f logit target)"
  assumes ne: "logits \<noteq> []"
    and lt: "length targets = length logits" and lw: "length weights = length logits"
    and shapes: "\<forall>i<length logits.
        length (logits ! i) = B \<and> length (targets ! i) = B \<and> length (weights ! i) = B"
    and custom: "\<forall>f. softmax_loss_function = Some f \<longrightarrow>
        (\<forall>i<length logits. length (f (logits ! i) (targets ! i)) = B)"
  shows "\<exists>r. sequence_loss_by_example logits targets weights average_across_timesteps
                 softmax_loss_function = Inr r \<and>
             length r = B \<and>
             (\<forall>b<B. r ! b =
                (\<Sum>i<length logits. cv (logits ! i) (targets ! i) ! b * weights ! i ! b)
                / (if average_across_timesteps
                   then (\<Sum>i<length logits. weights ! i ! b) + 1 / 10 ^ 12 else 1))"
proof -
  let ?T = "length logits"
  let ?zs = "zip logits (zip targets weights)"
  let ?lp = "map (\<lambda>z. map2 (*) (cv (fst z) (fst (snd z))) (snd (snd z))) ?zs"
  have lcv: "length (cv (logits ! i) (targets ! i)) = B" if "i < ?T" for i
    using shapes custom that by (cases softmax_loss_function) (auto simp: cv_def)
  have lzs: "length ?zs = ?T" using lt lw by simp
  have nth_zs: "?zs ! i = (logits ! i, targets ! i, weights ! i)" if "i < ?T" for i
    using that lt lw by simp
  have "\<forall>z\<in>set ?zs. length (fst z) = length (fst (snd z)) \<and>
      length (cv (fst z) (fst (snd z))) = length (snd (snd z))"
  proof
    fix z assume "z \<in> set ?zs"
    then obtain i where i: "i < ?T" and z: "z = ?zs ! i"
      unfolding in_set_conv_nth lzs by auto
    show "length (fst z) = length (fst (snd z)) \<and>
      length (cv (fst z) (fst (snd z))) = length (snd (snd z))"
      unfolding z nth_zs [OF i] using shapes lcv [OF i] i by simp
  qed
  then have lpl: "log_perp_list softmax_loss_function ?zs = Inr ?lp"
    unfolding cv_def by (rule log_perp_list_value)
  have llp: "length ?lp = ?T" using lzs by simp
  have nth_lp: "?lp ! i = map2 (*) (cv (logits ! i) (targets ! i)) (weights ! i)"
    if "i < ?T" for i
    using that lzs nth_zs [OF that] by simp
  have lp_ne: "?lp \<noteq> []" using ne llp by (metis length_0_conv)
  have lp_len: "\<forall>v\<in>set ?lp. length v = B"
  proof
    fix v assume "v \<in> set ?lp"
    then obtain i where i: "i < ?T" and v: "v = ?lp ! i"
      unfolding in_set_conv_nth llp by auto
    show "length v = B" unfolding v nth_lp [OF i] using shapes lcv [OF i] i by simp
  qed
  from add_n_nth [OF lp_ne lp_len] obtain lp where
    lp: "add_n ?lp = Inr lp" "length lp = B" "\<forall>b<B. lp ! b = (\<Sum>i<length ?lp. ?lp ! i ! b)"
    by blast
  have lp_val: "lp ! b = (\<Sum>i<?T. cv (logits ! i) (targets ! i) ! b * weights ! i ! b)"
    if "b < B" for b
  proof -
    have "lp ! b = (\<Sum>i<?T. ?lp ! i ! b)" using lp(3) that unfolding llp by blast
    also have "\<dots> = (\<Sum>i<?T. cv (logits ! i) (targets ! i) ! b * weights ! i ! b)"
    proof (rule sum.cong [OF refl])
      fix i assume "i \<in> {..<?T}"
      then have i: "i < ?T" by simp
      show "?lp ! i ! b = cv (logits ! i) (targets ! i) ! b * weights ! i ! b"
        unfolding nth_lp [OF i] using shapes lcv [OF i] i that by simp
    qed
    finally show ?thesis .
  qed
  have w_ne: "weights \<noteq> []" using ne lw by (metis length_0_conv)
  have w_len: "\<forall>v\<in>set weights. length v = B"
    using shapes lw by (auto simp: in_set_conv_nth)
  from add_n_nth [OF w_ne w_len] obtain ts where
    ts: "add_n weights = Inr ts" "length ts = B"
      "\<forall>b<B. ts ! b = (\<Sum>i<length weights. weights ! i ! b)"
    by blast
  define r where "r = (if average_across_timesteps
                       then map2 (/) lp (map (\<lambda>x. x + 1 / 10 ^ 12) ts) else lp)"
  have "broadcast (/) lp (map (\<lambda>x. x + 1 / 10 ^ 12) ts) =
      Inr (map2 (/) lp (map (\<lambda>x. x + 1 / 10 ^ 12) ts))"
    using lp(2) ts(2) by (simp add: broadcast_def)
  then have sl: "sequence_loss_by_example logits targets weights average_across_timesteps
              softmax_loss_function = Inr r"
    unfolding sequence_loss_by_example_def r_def using lt lw lpl lp(1) ts(1) by simp
  have lr: "length r = B" unfolding r_def using lp(2) ts(2) by simp
  have rv: "r ! b = (\<Sum>i<?T. cv (logits ! i) (targets ! i) ! b * weights ! i ! b)
                / (if average_across_timesteps
                   then (\<Sum>i<?T. weights ! i ! b) + 1 / 10 ^ 12 else 1)" if "b < B" for b
    unfolding r_def using that lp(2) ts(2) ts(3) lw lp_val [OF that] by simp
  from sl lr rv show ?thesis by blast
qed

text \<open>
  C4. For logits, targets and weights of one length \<open>T > 0\<close> over a batch of \<open>B\<close>
  elements, \<^verbatim>\<open>sequence_loss_by_example\<close> returns for every batch element the sum over the
  steps of the step's cross-entropy (for the default loss minus the logarithm of the
  softmax of the step's logits at the step's target, else the value of the supplied
  loss function) times the step's weight, divided (when \<^verbatim>\<open>average_across_timesteps\<close> is
  set) by the sum of the weights plus \<open>1e-12\<close>, a divisor that is positive for weights
  that are not negative, all zero included; \<^verbatim>\<open>sequence_loss\<close> returns the sum of these
  values over the batch, divided by the batch size when \<^verbatim>\<open>average_across_batch\<close> is set.
\<close>

theorem sequence_loss_value:
  assumes ne: "logits \<noteq> []"
    and lt: "length targets = length logits" and lw: "length weights = length logits"
    and shapes: "\<forall>i<length logits.
        length (logits ! i) = B \<and> length (targets ! i) = B \<and> length (weights ! i) = B"
    and custom: "\<forall>f. softmax_loss_function = Some f \<longrightarrow>
        (\<forall>i<length logits. length (f (logits ! i) (targets ! i)) = B)"
    and labels: "softmax_loss_function = None \<longrightarrow>
        (\<forall>i<length logits. \<forall>b<B. targets ! i ! b < length (logits ! i ! b))"
  shows "\<exists>r. sequence_loss_by_example logits targets weights average_across_timesteps
                 softmax_loss_function = Inr r \<and>
             length r = B \<and>
             (\<forall>b<B. r ! b =
                (\<Sum>i<length logits.
                    (case softmax_loss_function of
                       None \<Rightarrow>
                         - ln (exp (logits ! i ! b ! (targets ! i ! b))
                               / (\<Sum>c\<leftarrow>logits ! i ! b. exp c))
                     | Some f \<Rightarrow> f (logits ! i) (targets ! i) ! b)
                    * weights ! i ! b)
                / (if average_across_timesteps
                   then (\<Sum>i<length logits. weights ! i ! b) + 1 / 10 ^ 12 else 1)) \<and>
             (\<forall>b<B. (\<forall>i<length logits. 0 \<le> weights ! i ! b) \<longrightarrow>
                0 < (\<Sum>i<length logits. weights ! i ! b) + 1 / 10 ^ 12) \<and>
             sequence_loss logits targets weights average_across_timesteps average_across_batch
                 softmax_loss_function =
               Inr ((\<Sum>b<B. r ! b) / (if average_across_batch then real B else 1))"
proof -
  let ?T = "length logits"
  let ?cv = "\<lambda>logit target.
      (case softmax_loss_function of
         None \<Rightarrow> map2 (\<lambda>row t. - ln (softmax_row row ! t)) logit target
       | Some f \<Rightarrow> f logit target)"
  let ?ce = "\<lambda>i b.
      (case softmax_loss_function of
         None \<Rightarrow> - ln (exp (logits ! i ! b ! (targets ! i ! b)) / (\<Sum>c\<leftarrow>logits ! i ! b. exp c))
       | Some f \<Rightarrow> f (logits ! i) (targets ! i) ! b)"
  from sequence_loss_by_example_value [OF ne lt lw shapes custom] obtain r where
    sl: "sequence_loss_by_example logits targets weights average_across_timesteps
           softmax_loss_function = Inr r"
    and lr: "length r = B"
    and rv: "\<forall>b<B. r ! b =
                (\<Sum>i<?T. ?cv (logits ! i) (targets ! i) ! b * weights ! i ! b)
                / (if average_across_timesteps
                   then (\<Sum>i<?T. weights ! i ! b) + 1 / 10 ^ 12 else 1)"
    by blast
  have ce: "?cv (logits ! i) (targets ! i) ! b = ?ce i b" if "i < ?T" "b < B" for i b
  proof (cases softmax_loss_function)
    case None
    have "targets ! i ! b < length (logits ! i ! b)" using labels None that by simp
    then have "softmax_row (logits ! i ! b) ! (targets ! i ! b) =
        exp (logits ! i ! b ! (targets ! i ! b)) / (\<Sum>c\<leftarrow>logits ! i ! b. exp c)"
      by (simp add: softmax_row_def)
    then show ?thesis using None shapes that by simp
  next
    case (Some f)
    then show ?thesis by simp
  qed
  have rv': "r ! b = (\<Sum>i<?T. ?ce i b * weights ! i ! b)
                / (if average_across_timesteps
                   then (\<Sum>i<?T. weights ! i ! b) + 1 / 10 ^ 12 else 1)" if "b < B" for b
  proof -
    have "(\<Sum>i<?T. ?cv (logits ! i) (targets ! i) ! b * weights ! i ! b) =
        (\<Sum>i<?T. ?ce i b * weights ! i ! b)"
      by (rule sum.cong [OF refl]) (simp add: ce that)
    with rv that show ?thesis by simp
  qed
  have pos: "0 < (\<Sum>i<?T. weights ! i ! b) + 1 / 10 ^ 12"
    if "\<forall>i<?T. 0 \<le> weights ! i ! b" for b
  proof -
    have "0 \<le> (\<Sum>i<?T. weights ! i ! b)" using that by (intro sum_nonneg) simp
    then show ?thesis by (simp add: add_nonneg_pos)
  qed
  have t_ne: "targets \<noteq> []" using ne lt by (metis length_0_conv)
  then obtain t0 trest where tg: "targets = t0 # trest" by (cases targets) auto
  have "0 < ?T" using ne by simp
  with shapes have "length (targets ! 0) = B" by blast
  then have lt0: "length t0 = B" by (simp add: tg)
  have sq: "sequence_loss logits targets weights average_across_timesteps average_across_batch
                 softmax_loss_function =
               Inr ((\<Sum>b<B. r ! b) / (if average_across_batch then real B else 1))"
    unfolding sequence_loss_def sl using lr lt0
    by (simp add: Let_def reduce_sum_def sum_list_sum_nth atLeast0LessThan tg)
  from sl lr rv' pos sq show ?thesis by blast
qed

theorem sequence_loss_value_witness:
  "\<exists>r. sequence_loss_by_example
          [[[0, ln 3], [0, 0]], [[0, 0], [ln 3, 0]]] [[1, 0], [0, 0]] [[1, 1], [1, 0]]
          True None = Inr r \<and>
        length r = 2 \<and>
        r ! 0 = (- ln (1 / 2) - ln (3 / 4)) / (2 + 1 / 10 ^ 12) \<and>
        r ! 1 = - ln (1 / 2) / (1 + 1 / 10 ^ 12) \<and>
        sequence_loss
          [[[0, ln 3], [0, 0]], [[0, 0], [ln 3, 0]]] [[1, 0], [0, 0]] [[1, 1], [1, 0]]
          True True None = Inr ((r ! 1 + r ! 0) / 2)"
  using sequence_loss_value [of "[[[0, ln 3], [0, 0]], [[0, 0], [ln 3, 0]]]"
      "[[1, 0], [0, 0]]" "[[1, 1], [1, 0]]" 2 None True True]
  by (simp add: less_Suc_eq numeral_2_eq_2 all_conj_distrib nth_Cons' lessThan_Suc)




section \<open>Properties of the latent variable\<close>

text \<open>
  C9. When \<^verbatim>\<open>latent_state\<close> is supplied (without \<^verbatim>\<open>concat_encoded\<close>), the call returns;
  the decoder starts from the projection of the supplied tensor, which is also the
  latent vector returned; and the KL term is the aggregate of \<open>z_mean\<close> and
  \<open>z_log_var\<close>, the same value that the call returns without a \<^verbatim>\<open>latent_state\<close>.
\<close>

theorem latent_state_supplied:
  "\<exists>outputs state.
     embedding_rnn_decoder decoder_inputs
       (let initial_state =
              transfer_func (bias_add (matmul latent_state (dec_in_w vars)) (dec_in_b vars))
        in if state_is_tuple then Tuple (split2 initial_state) else Tensor initial_state)
       dec_cell embedding output_projection feed_previous True None rv = Inr (outputs, state) \<and>
     embedding_rnn_vae_seq2seq encoder_out_state decoder_inputs dec_cell state_is_tuple
       embedding transfer_func output_projection feed_previous (Some latent_state) feed_prev_p
       kl_min anneal_scale sample_mean False vars eps rv =
     Inr (outputs, latent_state,
          kl_obj (latent_mean vars transfer_func encoder_out_state)
                 (latent_log_var vars transfer_func encoder_out_state) kl_min anneal_scale) \<and>
     (\<exists>outputs' z'.
        embedding_rnn_vae_seq2seq encoder_out_state decoder_inputs dec_cell state_is_tuple
          embedding transfer_func output_projection feed_previous None feed_prev_p
          kl_min anneal_scale sample_mean False vars eps rv =
        Inr (outputs', z',
             kl_obj (latent_mean vars transfer_func encoder_out_state)
                    (latent_log_var vars transfer_func encoder_out_state) kl_min anneal_scale))"
proof -
  define init where "init =
       (let initial_state =
              transfer_func (bias_add (matmul latent_state (dec_in_w vars)) (dec_in_b vars))
        in if state_is_tuple then Tuple (split2 initial_state) else Tensor initial_state)"
  from embedding_rnn_decoder_total
         [of decoder_inputs init dec_cell embedding output_projection feed_previous True None rv]
  obtain outputs state where
    d: "embedding_rnn_decoder decoder_inputs init dec_cell embedding output_projection
          feed_previous True None rv = Inr (outputs, state)"
    by (elim exE)
  have i: "decoder_initial_state vars transfer_func state_is_tuple False encoder_out_state
             latent_state = Inr init"
    by (simp add: decoder_initial_state_def init_def Let_def)
  have a: "embedding_rnn_vae_seq2seq encoder_out_state decoder_inputs dec_cell state_is_tuple
       embedding transfer_func output_projection feed_previous (Some latent_state) feed_prev_p
       kl_min anneal_scale sample_mean False vars eps rv =
     Inr (outputs, latent_state,
          kl_obj (latent_mean vars transfer_func encoder_out_state)
                 (latent_log_var vars transfer_func encoder_out_state) kl_min anneal_scale)"
    unfolding embedding_rnn_vae_seq2seq_def
    by (simp add: Let_def latent_z_def i d)
  have b: "\<exists>outputs' z'.
        embedding_rnn_vae_seq2seq encoder_out_state decoder_inputs dec_cell state_is_tuple
          embedding transfer_func output_projection feed_previous None feed_prev_p
          kl_min anneal_scale sample_mean False vars eps rv =
        Inr (outputs', z',
             kl_obj (latent_mean vars transfer_func encoder_out_state)
                    (latent_log_var vars transfer_func encoder_out_state) kl_min anneal_scale)"
  proof -
    obtain z p where z: "latent_z (latent_mean vars transfer_func encoder_out_state)
        (latent_log_var vars transfer_func encoder_out_state) eps sample_mean feed_previous
        None feed_prev_p = (z, p)"
      by (cases "latent_z (latent_mean vars transfer_func encoder_out_state)
        (latent_log_var vars transfer_func encoder_out_state) eps sample_mean feed_previous
        None feed_prev_p")
    obtain st where st: "decoder_initial_state vars transfer_func state_is_tuple False
        encoder_out_state z = Inr st"
      by (cases state_is_tuple) (simp_all add: decoder_initial_state_def Let_def)
    from embedding_rnn_decoder_total
           [of decoder_inputs st dec_cell embedding output_projection feed_previous True p rv]
    obtain outs state' where "embedding_rnn_decoder decoder_inputs st dec_cell embedding
        output_projection feed_previous True p rv = Inr (outs, state')"
      by (elim exE)
    then show ?thesis
      unfolding embedding_rnn_vae_seq2seq_def by (simp add: Let_def z st)
  qed
  from d a b show ?thesis
    unfolding init_def by - (rule exI, rule exI, intro conjI)
qed

section \<open>Properties of the buckets\<close>

lemma bucket_loss_lengths:
  "bucket_loss out targets weights softmax_loss_function per_example_loss = Inr l
     \<Longrightarrow> length targets = length out \<and> length weights = length out"
  by (auto simp: bucket_loss_def sequence_loss_def sequence_loss_by_example_def
      split: if_splits sum.splits)

lemma bucket_loop_lengths:
  assumes model: "\<forall>e d n es p out st kl.
        seq2seq e d n es p = Inr (out, st, kl) \<longrightarrow> length out = length d"
    and le: "\<forall>bucket\<in>set buckets. snd bucket \<le> length targets"
    and ret: "bucket_loop seq2seq encoder_inputs decoder_inputs targets weights
        softmax_loss_function per_example_loss encoder_states feed_prev_p buckets
        outputs losses states = Inr (outputs', losses', states')"
  shows "\<exists>new. outputs' = outputs @ new \<and> length new = length buckets \<and>
           (\<forall>j<length buckets. length (new ! j) = snd (buckets ! j))"
  using le ret
proof (induction buckets arbitrary: outputs losses states)
  case Nil
  then show ?case by simp
next
  case (Cons bucket rest)
  from Cons.prems(2) obtain out state kl l kl' where
    s: "seq2seq (take (fst bucket) encoder_inputs) (take (snd bucket) decoder_inputs)
          (fst bucket) encoder_states feed_prev_p = Inr (out, state, kl)"
    and bl: "bucket_loss out (take (snd bucket) targets) (take (snd bucket) weights)
          softmax_loss_function per_example_loss = Inr l"
    and rest: "bucket_loop seq2seq encoder_inputs decoder_inputs targets weights
          softmax_loss_function per_example_loss encoder_states feed_prev_p rest
          (outputs @ [out]) (losses @ [(l, kl')]) (states @ [state])
          = Inr (outputs', losses', states')"
    by (auto split: sum.splits prod.splits)
  from bucket_loss_lengths [OF bl] Cons.prems(1) have lo: "length out = snd bucket"
    by simp
  have "\<forall>bucket\<in>set rest. snd bucket \<le> length targets" using Cons.prems(1) by simp
  from Cons.IH [OF this rest] obtain new where
    new: "outputs' = (outputs @ [out]) @ new" "length new = length rest"
      "\<forall>j<length rest. length (new ! j) = snd (rest ! j)" by blast
  have "\<forall>j<length (bucket # rest). length ((out # new) ! j) = snd ((bucket # rest) ! j)"
    using lo new(3) by (auto simp: nth_Cons split: nat.splits)
  with new(1,2) show ?case by (intro exI [of _ "out # new"]) simp
qed


lemma bucket_loss_total:
  assumes "length targets = length out" "length weights = length out" "out \<noteq> []"
    and shapes: "\<forall>i<length out.
        length (out ! i) = B \<and> length (targets ! i) = B \<and> length (weights ! i) = B"
    and custom: "\<forall>f. softmax_loss_function = Some f \<longrightarrow>
        (\<forall>i<length out. length (f (out ! i) (targets ! i)) = B)"
  shows "\<exists>l. bucket_loss out targets weights softmax_loss_function per_example_loss = Inr l"
proof -
  from sequence_loss_by_example_value [OF assms(3) assms(1) assms(2) shapes custom]
  obtain r where
    "sequence_loss_by_example out targets weights True softmax_loss_function = Inr r"
    by blast
  moreover have "targets \<noteq> []" using assms by (metis length_0_conv)
  then obtain t0 trest where tg: "targets = t0 # trest" by (cases targets) auto
  ultimately show ?thesis
    unfolding bucket_loss_def sequence_loss_def by (auto simp: Let_def tg)
qed

lemma kl_term_total:
  "weights \<noteq> [] \<Longrightarrow> \<forall>w\<in>set weights. length w = B \<Longrightarrow> \<exists>t. kl_term k weights = Inr t"
  using add_n_nth [of weights B] by (auto simp: kl_term_def Let_def)

lemma bucket_loop_total:
  assumes model: "\<forall>bucket\<in>set buckets. \<exists>out st kl.
        seq2seq (take (fst bucket) encoder_inputs) (take (snd bucket) decoder_inputs)
          (fst bucket) encoder_states feed_prev_p = Inr (out, st, kl) \<and>
        length out = length (take (snd bucket) decoder_inputs) \<and>
        (\<forall>logit\<in>set out. length logit = B)"
    and b: "\<forall>bucket\<in>set buckets. 0 < snd bucket \<and> snd bucket \<le> length targets \<and>
        snd bucket \<le> length weights \<and> snd bucket \<le> length decoder_inputs"
    and tshape: "\<forall>t\<in>set targets. length t = B"
    and wshape: "\<forall>w\<in>set weights. length w = B"
    and custom: "\<forall>f. softmax_loss_function = Some f \<longrightarrow>
        (\<forall>logit target. length logit = B \<longrightarrow> length target = B \<longrightarrow>
           length (f logit target) = B)"
  shows "\<exists>r. bucket_loop seq2seq encoder_inputs decoder_inputs targets weights
        softmax_loss_function per_example_loss encoder_states feed_prev_p buckets
        outputs losses states = Inr r"
  using model b
proof (induction buckets arbitrary: outputs losses states)
  case Nil
  then show ?case by simp
next
  case (Cons bucket rest)
  from Cons.prems(1) obtain out st kl where
    s: "seq2seq (take (fst bucket) encoder_inputs) (take (snd bucket) decoder_inputs)
          (fst bucket) encoder_states feed_prev_p = Inr (out, st, kl)"
    and lo: "length out = length (take (snd bucket) decoder_inputs)"
    and oshape: "\<forall>logit\<in>set out. length logit = B" by auto
  from Cons.prems(2) have bk: "0 < snd bucket" "snd bucket \<le> length targets"
    "snd bucket \<le> length weights" "snd bucket \<le> length decoder_inputs" by auto
  have lo': "length out = snd bucket" using lo bk by simp
  then have ne: "out \<noteq> []" using bk(1) by auto
  let ?tg = "take (snd bucket) targets" and ?w = "take (snd bucket) weights"
  have l: "length ?tg = length out" "length ?w = length out" using lo' bk by auto
  have shapes: "\<forall>i<length out.
        length (out ! i) = B \<and> length (?tg ! i) = B \<and> length (?w ! i) = B"
    using oshape tshape wshape lo' bk by (auto simp: all_set_conv_all_nth)
  have cust: "\<forall>f. softmax_loss_function = Some f \<longrightarrow>
        (\<forall>i<length out. length (f (out ! i) (?tg ! i)) = B)"
    using custom shapes by blast
  from bucket_loss_total [OF l ne shapes cust] obtain l where
    bl: "bucket_loss out ?tg ?w softmax_loss_function per_example_loss = Inr l" by blast
  have "?w \<noteq> []" using bk by auto
  moreover have "\<forall>w\<in>set ?w. length w = B" using wshape by (auto dest: in_set_takeD)
  ultimately have klt: "\<exists>t. kl_term k ?w = Inr t" for k
    by (rule kl_term_total)
  note IH = Cons.IH
  have m': "\<forall>bucket\<in>set rest. \<exists>out st kl.
        seq2seq (take (fst bucket) encoder_inputs) (take (snd bucket) decoder_inputs)
          (fst bucket) encoder_states feed_prev_p = Inr (out, st, kl) \<and>
        length out = length (take (snd bucket) decoder_inputs) \<and>
        (\<forall>logit\<in>set out. length logit = B)"
    using Cons.prems(1) by simp
  have b': "\<forall>bucket\<in>set rest. 0 < snd bucket \<and> snd bucket \<le> length targets \<and>
        snd bucket \<le> length weights \<and> snd bucket \<le> length decoder_inputs"
    using Cons.prems(2) by simp
  show ?case
  proof (cases kl)
    case None
    from IH [OF m' b', of "outputs @ [out]" "losses @ [(l, None)]" "states @ [st]"]
    show ?thesis by (simp add: s bl None)
  next
    case (Some k)
    from klt obtain t where t: "kl_term k ?w = Inr t" by blast
    from IH [OF m' b', of "outputs @ [out]" "losses @ [(l, Some t)]" "states @ [st]"]
    show ?thesis by (simp add: s bl Some t)
  qed
qed

text \<open>
  C7. For a model that returns one output per decoder input and buckets whose decoder
  lengths do not exceed the last bucket's, every output sequence that
  \<^verbatim>\<open>model_with_buckets\<close> returns has the decoder length of its bucket; and the call does
  return when the model returns for every bucket, the buckets have positive decoder
  lengths, the four input lists reach the last bucket's lengths and the tensors (the
  model's outputs, the targets, the weights, the values of a supplied loss function)
  have one batch size.
\<close>

theorem model_with_buckets_output_lengths:
  assumes model: "\<forall>e d n es p out st kl.
        seq2seq e d n es p = Inr (out, st, kl) \<longrightarrow> length out = length d"
    and asc: "\<forall>bucket\<in>set buckets. snd bucket \<le> snd (last buckets)"
  shows "(\<forall>outputs losses.
            model_with_buckets encoder_inputs decoder_inputs targets weights buckets seq2seq
              softmax_loss_function per_example_loss = Inr (outputs, losses) \<longrightarrow>
            length outputs = length buckets \<and>
            (\<forall>j<length buckets. length (outputs ! j) = snd (buckets ! j))) \<and>
         (buckets \<noteq> [] \<and> (\<forall>bucket\<in>set buckets. 0 < snd bucket) \<and>
          (\<forall>bucket\<in>set buckets. \<exists>out st kl.
              seq2seq (take (fst bucket) encoder_inputs) (take (snd bucket) decoder_inputs)
                (fst bucket) None None = Inr (out, st, kl) \<and>
              (\<forall>logit\<in>set out. length logit = B)) \<and>
          (\<forall>t\<in>set targets. length t = B) \<and> (\<forall>w\<in>set weights. length w = B) \<and>
          (\<forall>f. softmax_loss_function = Some f \<longrightarrow>
             (\<forall>logit target. length logit = B \<longrightarrow> length target = B \<longrightarrow>
                length (f logit target) = B)) \<and>
          fst (last buckets) \<le> length encoder_inputs \<and>
          snd (last buckets) \<le> length decoder_inputs \<and>
          snd (last buckets) \<le> length targets \<and>
          snd (last buckets) \<le> length weights \<longrightarrow>
          (\<exists>outputs losses.
             model_with_buckets encoder_inputs decoder_inputs targets weights buckets seq2seq
               softmax_loss_function per_example_loss = Inr (outputs, losses)))"
proof -
  have p1: "length outputs = length buckets \<and>
        (\<forall>j<length buckets. length (outputs ! j) = snd (buckets ! j))"
    if ret: "model_with_buckets encoder_inputs decoder_inputs targets weights buckets seq2seq
              softmax_loss_function per_example_loss = Inr (outputs, losses)"
    for outputs losses
  proof -
    from ret obtain states where
      st: "model_with_buckets_states encoder_inputs decoder_inputs targets weights buckets
             seq2seq softmax_loss_function per_example_loss None None
           = Inr (outputs, losses, states)"
      by (auto simp: model_with_buckets_def split: sum.splits)
    then have tg: "snd (last buckets) \<le> length targets"
      and loop: "bucket_loop seq2seq encoder_inputs decoder_inputs targets weights
             softmax_loss_function per_example_loss None None buckets [] [] []
           = Inr (outputs, losses, states)"
      by (auto simp: model_with_buckets_states_def split: if_splits)
    have "\<forall>bucket\<in>set buckets. snd bucket \<le> length targets"
      using asc tg by fastforce
    from bucket_loop_lengths [OF model this loop]
    show ?thesis by auto
  qed
  have p2: "\<exists>outputs losses.
             model_with_buckets encoder_inputs decoder_inputs targets weights buckets seq2seq
               softmax_loss_function per_example_loss = Inr (outputs, losses)"
    if a: "buckets \<noteq> [] \<and> (\<forall>bucket\<in>set buckets. 0 < snd bucket) \<and>
          (\<forall>bucket\<in>set buckets. \<exists>out st kl.
              seq2seq (take (fst bucket) encoder_inputs) (take (snd bucket) decoder_inputs)
                (fst bucket) None None = Inr (out, st, kl) \<and>
              (\<forall>logit\<in>set out. length logit = B)) \<and>
          (\<forall>t\<in>set targets. length t = B) \<and> (\<forall>w\<in>set weights. length w = B) \<and>
          (\<forall>f. softmax_loss_function = Some f \<longrightarrow>
             (\<forall>logit target. length logit = B \<longrightarrow> length target = B \<longrightarrow>
                length (f logit target) = B)) \<and>
          fst (last buckets) \<le> length encoder_inputs \<and>
          snd (last buckets) \<le> length decoder_inputs \<and>
          snd (last buckets) \<le> length targets \<and>
          snd (last buckets) \<le> length weights"
  proof -
    have m: "\<forall>bucket\<in>set buckets. \<exists>out st kl.
        seq2seq (take (fst bucket) encoder_inputs) (take (snd bucket) decoder_inputs)
          (fst bucket) None None = Inr (out, st, kl) \<and>
        length out = length (take (snd bucket) decoder_inputs) \<and>
        (\<forall>logit\<in>set out. length logit = B)"
    proof
      fix bucket assume "bucket \<in> set buckets"
      with a obtain out st kl where
        s: "seq2seq (take (fst bucket) encoder_inputs) (take (snd bucket) decoder_inputs)
              (fst bucket) None None = Inr (out, st, kl)"
        and sh: "\<forall>logit\<in>set out. length logit = B" by blast
      from model s have "length out = length (take (snd bucket) decoder_inputs)" by blast
      with s sh show "\<exists>out st kl.
        seq2seq (take (fst bucket) encoder_inputs) (take (snd bucket) decoder_inputs)
          (fst bucket) None None = Inr (out, st, kl) \<and>
        length out = length (take (snd bucket) decoder_inputs) \<and>
        (\<forall>logit\<in>set out. length logit = B)" by blast
    qed
    have b: "\<forall>bucket\<in>set buckets. 0 < snd bucket \<and> snd bucket \<le> length targets \<and>
          snd bucket \<le> length weights \<and> snd bucket \<le> length decoder_inputs"
      using a asc by fastforce
    from a have tshape: "\<forall>t\<in>set targets. length t = B"
      and wshape: "\<forall>w\<in>set weights. length w = B"
      and custom: "\<forall>f. softmax_loss_function = Some f \<longrightarrow>
             (\<forall>logit target. length logit = B \<longrightarrow> length target = B \<longrightarrow>
                length (f logit target) = B)" by blast+
    from bucket_loop_total [where seq2seq = seq2seq and encoder_inputs = encoder_inputs
        and decoder_inputs = decoder_inputs and encoder_states = None and feed_prev_p = None,
        OF m b tshape wshape custom]
    obtain r where
      "bucket_loop seq2seq encoder_inputs decoder_inputs targets weights
          softmax_loss_function per_example_loss None None buckets [] [] [] = Inr r" by blast
    moreover obtain outputs losses states where "r = (outputs, losses, states)" by (cases r)
    ultimately show ?thesis
      using a by (simp add: model_with_buckets_def model_with_buckets_states_def)
  qed
  from p1 p2 show ?thesis by blast
qed

lemma example_rnn_seq2seq_length:
  "example_rnn_seq2seq e d n es p = Inr (out, st, kl) \<Longrightarrow> length out = length d"
  by (auto simp: example_rnn_seq2seq_def split: sum.splits dest: rnn_decoder_length)

theorem model_with_buckets_output_lengths_witness:
  "\<exists>outputs losses.
     model_with_buckets [[[0]], [[0]]] [[[0, 0]], [[0, 0]]] [[0], [0]] [[1], [1]]
       [(1, 1), (2, 2)] example_rnn_seq2seq None False = Inr (outputs, losses) \<and>
     length outputs = 2 \<and> length (outputs ! 0) = 1 \<and> length (outputs ! 1) = 2"
proof -
  have model: "\<forall>e d n es p out st kl.
      example_rnn_seq2seq e d n es p = Inr (out, st, kl) \<longrightarrow> length out = length d"
    using example_rnn_seq2seq_length by blast
  have asc: "\<forall>bucket\<in>set [(1, 1), (2, 2 :: nat)]. snd bucket \<le> snd (last [(1 :: nat, 1), (2, 2)])"
    by simp
  note t = model_with_buckets_output_lengths [OF model asc,
      of "[[[0]], [[0]]]" "[[[0, 0]], [[0, 0]]]" "[[0], [0]]" "[[1], [1]]" None False 1]
  have runs: "\<forall>bucket\<in>set [(1, 1), (2, 2 :: nat)]. \<exists>out st kl.
      example_rnn_seq2seq (take (fst bucket) [[[0]], [[0]]])
        (take (snd bucket) [[[0, 0]], [[0, 0]]]) (fst bucket) None None = Inr (out, st, kl) \<and>
      (\<forall>logit\<in>set out. length logit = 1)"
    by (simp add: example_rnn_seq2seq_def rnn_decoder_def decoder_input_def inner_loop_def
        example_cell_def numeral_2_eq_2)
  from t runs obtain outputs losses where
    r: "model_with_buckets [[[0]], [[0]]] [[[0, 0]], [[0, 0]]] [[0], [0]] [[1], [1]]
       [(1, 1), (2, 2)] example_rnn_seq2seq None False = Inr (outputs, losses)"
    by auto
  with t have "length outputs = length [(1 :: nat, 1 :: nat), (2, 2)] \<and>
     (\<forall>j<length [(1 :: nat, 1 :: nat), (2, 2)].
         length (outputs ! j) = snd ([(1 :: nat, 1 :: nat), (2, 2)] ! j))"
    by blast
  then have "length outputs = 2 \<and> length (outputs ! 0) = 1 \<and> length (outputs ! 1) = 2"
    by (auto simp: less_Suc_eq numeral_2_eq_2)
  with r show ?thesis by blast
qed

lemma bucket_loop_first_error:
  "buckets \<noteq> [] \<Longrightarrow>
   seq2seq (take (fst (hd buckets)) encoder_inputs) (take (snd (hd buckets)) decoder_inputs)
     (fst (hd buckets)) encoder_states feed_prev_p = Inl e \<Longrightarrow>
   bucket_loop seq2seq encoder_inputs decoder_inputs targets weights
     softmax_loss_function per_example_loss encoder_states feed_prev_p buckets
     outputs losses states = Inl e"
  by (cases buckets) simp_all

text \<open>
  C10. \<^verbatim>\<open>model_with_buckets_states\<close> tests the lengths of \<^verbatim>\<open>encoder_inputs\<close>,
  \<^verbatim>\<open>targets\<close> and \<^verbatim>\<open>weights\<close> against the last bucket, in this order, and raises
  ValueError for the first that is too short. The length of \<^verbatim>\<open>decoder_inputs\<close> is not
  tested: whatever \<^verbatim>\<open>decoder_inputs\<close> is, when the three tests pass the model of the
  first bucket is called, so that an error it raises there is the outcome of the call.
\<close>

theorem model_with_buckets_states_entry:
  assumes ne: "buckets \<noteq> []"
  shows "(length encoder_inputs < fst (last buckets) \<longrightarrow>
            model_with_buckets_states encoder_inputs decoder_inputs targets weights buckets
              seq2seq softmax_loss_function per_example_loss encoder_states feed_prev_p =
            Inl (ValueError ''Length of encoder_inputs must be at least that of last bucket'')) \<and>
         (fst (last buckets) \<le> length encoder_inputs \<and> length targets < snd (last buckets) \<longrightarrow>
            model_with_buckets_states encoder_inputs decoder_inputs targets weights buckets
              seq2seq softmax_loss_function per_example_loss encoder_states feed_prev_p =
            Inl (ValueError ''Length of targets must be at least that of lastbucket'')) \<and>
         (fst (last buckets) \<le> length encoder_inputs \<and> snd (last buckets) \<le> length targets \<and>
          length weights < snd (last buckets) \<longrightarrow>
            model_with_buckets_states encoder_inputs decoder_inputs targets weights buckets
              seq2seq softmax_loss_function per_example_loss encoder_states feed_prev_p =
            Inl (ValueError ''Length of weights must be at least that of lastbucket'')) \<and>
         (fst (last buckets) \<le> length encoder_inputs \<and> snd (last buckets) \<le> length targets \<and>
          snd (last buckets) \<le> length weights \<and>
          seq2seq (take (fst (hd buckets)) encoder_inputs)
            (take (snd (hd buckets)) decoder_inputs) (fst (hd buckets)) encoder_states
            feed_prev_p = Inl e \<longrightarrow>
            model_with_buckets_states encoder_inputs decoder_inputs targets weights buckets
              seq2seq softmax_loss_function per_example_loss encoder_states feed_prev_p =
            Inl e)"
  using ne by (auto simp: model_with_buckets_states_def bucket_loop_first_error)

theorem model_with_buckets_states_entry_witness:
  "model_with_buckets_states [[[0]]] [] [[0]] [[1]] [(1, 1)] example_attention_seq2seq
     None False None None =
   Inl error_no_inputs \<and>
   model_with_buckets_states [[[0]]] [] [] [[1]] [(1, 1)] example_attention_seq2seq
     None False None None =
   Inl (ValueError ''Length of targets must be at least that of lastbucket'')"
  using model_with_buckets_states_entry [where buckets = "[(1, 1)]"
      and encoder_inputs = "[[[0]]]" and targets = "[[0]]" and weights = "[[1]]"
      and seq2seq = example_attention_seq2seq and decoder_inputs = "[]"
      and encoder_states = None and feed_prev_p = None
      and e = error_no_inputs
      and softmax_loss_function = None and per_example_loss = False]
    model_with_buckets_states_entry [where buckets = "[(1, 1)]"
      and encoder_inputs = "[[[0]]]" and targets = "[]" and weights = "[[1]]"
      and seq2seq = example_attention_seq2seq and decoder_inputs = "[]"
      and encoder_states = None and feed_prev_p = None
      and e = error_no_inputs
      and softmax_loss_function = None and per_example_loss = False]
  by (simp add: example_attention_seq2seq_def example_attention_decoder_def
      attention_decoder_def attention_decoder_checks_def)

end
